theory Spec2Isabelle
  imports Main "HOL-Library.AList"
begin

section \<open>EBS volume swap with snapshot: a model of \<^verbatim>\<open>EBSVolumeSwapWithSnap.py\<close>\<close>

text \<open>
  The script replaces the attached EBS volumes of one EC2 instance by volumes created from
  fresh snapshots and writes two DynamoDB audit rows per swap. This theory embeds its
  functions in HOL. Python strings are \<open>string\<close>; a character stands for one code point
  below 256. A value read with \<^verbatim>\<open>dict.get\<close> is an \<open>option\<close> (\<open>None\<close> is Python's
  \<^verbatim>\<open>None\<close>). A Python \<^verbatim>\<open>dict\<close> is an association list with distinct keys in
  insertion order.
\<close>

subsection \<open>Strings\<close>

text \<open>\<^verbatim>\<open>str.isspace\<close> on the code points below 256: TAB..CR, FS..US, space, NEL and NBSP.\<close>

definition isspace :: "char \<Rightarrow> bool" where
  "isspace c = (let n = (of_char c :: nat) in
     (9 \<le> n \<and> n \<le> 13) \<or> (28 \<le> n \<and> n \<le> 32) \<or> n = 133 \<or> n = 160)"

definition lstrip :: "string \<Rightarrow> string" where
  "lstrip s = dropWhile isspace s"

definition rstrip :: "string \<Rightarrow> string" where
  "rstrip s = rev (dropWhile isspace (rev s))"

text \<open>\<^verbatim>\<open>s.strip()\<close>: leading and trailing whitespace removed.\<close>

definition strip :: "string \<Rightarrow> string" where
  "strip s = rstrip (lstrip s)"

text \<open>
  \<^verbatim>\<open>s.split(sep)\<close> for a one-character separator: the empty string gives one empty
  token, and every separator starts a new token. The result is never empty, so the
  \<open>[]\<close> branch of the case below is never taken.
\<close>

fun split_on :: "char \<Rightarrow> string \<Rightarrow> string list" where
  "split_on sep [] = [[]]"
| "split_on sep (c # cs) =
     (if c = sep then [] # split_on sep cs
      else (case split_on sep cs of [] \<Rightarrow> [[c]] | t # ts \<Rightarrow> (c # t) # ts))"

text \<open>\<^verbatim>\<open>sep.join(xs)\<close>.\<close>

fun join :: "string \<Rightarrow> string list \<Rightarrow> string" where
  "join sep [] = []"
| "join sep [x] = x"
| "join sep (x # y # ys) = x @ sep @ join sep (y # ys)"

text \<open>\<^verbatim>\<open>str(n)\<close> for an integer: decimal digits, with a minus sign when negative.\<close>

definition digit_char :: "nat \<Rightarrow> char" where
  "digit_char d = char_of (48 + d)"

function str_nat :: "nat \<Rightarrow> string" where
  "str_nat n = (if n < 10 then [digit_char n] else str_nat (n div 10) @ [digit_char (n mod 10)])"
  by pat_completeness auto
termination
  by (relation "measure (\<lambda>n. n)") auto

definition str_int :: "int \<Rightarrow> string" where
  "str_int i = (if i < 0 then CHR ''-'' # str_nat (nat (- i)) else str_nat (nat i))"

text \<open>How an f-string renders a value that may be \<^verbatim>\<open>None\<close>.\<close>

definition fmt :: "string option \<Rightarrow> string" where
  "fmt x = (case x of None \<Rightarrow> ''None'' | Some s \<Rightarrow> s)"

subsection \<open>Tags and \<^verbatim>\<open>merge_tags\<close>\<close>

record tag =
  Key :: string
  Value :: string

text \<open>\<^verbatim>\<open>d[k] = v\<close> on an insertion-ordered dictionary: an existing key keeps its place.\<close>

definition dict_setitem :: "('k \<times> 'v) list \<Rightarrow> 'k \<Rightarrow> 'v \<Rightarrow> ('k \<times> 'v) list" where
  "dict_setitem d k v = AList.update k v d"

text \<open>
  \<^verbatim>\<open>tag_dict = {tag["Key"]: tag["Value"] for tag in base_tags}\<close>, then one assignment
  per entry of \<^verbatim>\<open>new_tags\<close>, then the items of the dictionary as a list of tags.
\<close>

definition merge_tags :: "tag list \<Rightarrow> tag list \<Rightarrow> tag list" where
  "merge_tags base_tags new_tags =
     (let tag_dict = fold (\<lambda>tag d. dict_setitem d (Key tag) (Value tag)) base_tags [];
          tag_dict' = fold (\<lambda>tag d. dict_setitem d (Key tag) (Value tag)) new_tags tag_dict
      in map (\<lambda>(k, v). \<lparr>Key = k, Value = v\<rparr>) tag_dict')"

text \<open>A tag list read as key/value pairs.\<close>

definition tag_items :: "tag list \<Rightarrow> (string \<times> string) list" where
  "tag_items ts = map (\<lambda>t. (Key t, Value t)) ts"

subsection \<open>Exceptions, the world and programs\<close>

text \<open>
  The exceptions a call can raise, each with the text \<^verbatim>\<open>{e}\<close> prints. All four derive
  from \<^verbatim>\<open>Exception\<close>; \<open>OtherException\<close> stands for any other class that does.
\<close>

datatype exn = ClientError string | WaiterError string | IndexError string | OtherException string

fun exn_str :: "exn \<Rightarrow> string" where
  "exn_str (ClientError m) = m"
| "exn_str (WaiterError m) = m"
| "exn_str (IndexError m) = m"
| "exn_str (OtherException m) = m"

fun is_ClientError :: "exn \<Rightarrow> bool" where
  "is_ClientError (ClientError m) = True"
| "is_ClientError e = False"

fun is_WaiterError :: "exn \<Rightarrow> bool" where
  "is_WaiterError (WaiterError m) = True"
| "is_WaiterError e = False"

definition is_Exception :: "exn \<Rightarrow> bool" where
  "is_Exception e = True"

text \<open>The value of \<^verbatim>\<open>response["Reservations"]\<close> of \<^verbatim>\<open>describe_instances\<close>.\<close>

record ebs =
  VolumeId :: "string option"

record block_device_mapping =
  DeviceName :: "string option"
  Ebs :: "ebs option"

record security_group =
  GroupName :: string

record ec2_instance =
  BlockDeviceMappings :: "block_device_mapping list option"
  SecurityGroups :: "security_group list option"
  Tags :: "tag list option"

record reservation =
  Instances :: "ec2_instance list"

text \<open>The attributes of a loaded \<^verbatim>\<open>ec2_resource.Volume\<close> that the script reads.\<close>

record volume =
  vol_availability_zone :: string
  vol_size :: int
  vol_iops :: "int option"
  vol_throughput :: "int option"
  vol_volume_type :: string
  vol_encrypted :: bool
  vol_kms_key_id :: "string option"
  vol_tags :: "tag list option"

text \<open>One attachment to swap: the dictionary the locators build.\<close>

record volume_info =
  vi_volume_id :: "string option"
  vi_device_name :: "string option"

text \<open>The items written to the tables \<^verbatim>\<open>old_table\<close> and \<^verbatim>\<open>new_table\<close>.\<close>

record old_item =
  old_volume_id :: "string option"
  old_name :: string
  old_instancename :: string
  old_instance_id :: string
  old_devicename :: "string option"
  old_size :: int
  old_iops :: int
  old_throughput :: int
  old_snapshotid :: string
  old_timestamp :: string

record new_item =
  new_volume :: string
  new_source_snapshot :: string
  new_instance_id :: string
  new_instancename :: string
  new_devicename :: "string option"
  new_size :: int
  new_iops :: int
  new_throughput :: int
  new_volume_type :: string
  new_availability_zone :: string
  new_security_group_names :: string
  new_timestamp :: string

text \<open>The keyword arguments of \<^verbatim>\<open>ec2.create_volume\<close> (the resource type is always "volume").\<close>

record create_volume_request =
  SnapshotId :: string
  AvailabilityZone :: string
  VolumeType :: string
  Encrypted :: bool
  Iops :: int
  Throughput :: int
  Size :: int
  KmsKeyId :: "string option"
  TagSpecifications_Tags :: "tag list"

text \<open>The requests sent to EC2, with their arguments.\<close>

datatype ec2_call =
    DescribeInstances string
  | VolumeLoad "string option"
  | CreateSnapshot "string option" string
  | WaitSnapshotCompleted string
  | CreateTags "string option" "tag list"
  | CreateVolume create_volume_request
  | WaitVolumeAvailable "string option"
  | DetachVolume "string option" string bool
  | AttachVolume string string "string option"

text \<open>
  What \<^verbatim>\<open>print\<close> writes: a line of text, or the \<^verbatim>\<open>repr\<close> of the list of located
  volumes (kept as the list itself).
\<close>

datatype printed = Line string | Repr_volumes "volume_info list"

text \<open>
  The world outside the script: standard output, the requests sent to EC2 so far, and for
  each table the items whose \<^verbatim>\<open>put_item\<close> succeeded, oldest first (in the table a later
  item replaces an earlier one with the same key).
\<close>

record world =
  stdout :: "printed list"
  ec2_calls :: "ec2_call list"
  old_table :: "old_item list"
  new_table :: "new_item list"

text \<open>The four ways the script changes the world.\<close>

definition wrote :: "printed \<Rightarrow> world \<Rightarrow> world" where
  "wrote x w = w\<lparr>stdout := stdout w @ [x]\<rparr>"

definition called :: "ec2_call \<Rightarrow> world \<Rightarrow> world" where
  "called c w = w\<lparr>ec2_calls := ec2_calls w @ [c]\<rparr>"

definition stored_old :: "old_item \<Rightarrow> world \<Rightarrow> world" where
  "stored_old item w = w\<lparr>old_table := old_table w @ [item]\<rparr>"

definition stored_new :: "new_item \<Rightarrow> world \<Rightarrow> world" where
  "stored_new item w = w\<lparr>new_table := new_table w @ [item]\<rparr>"

text \<open>A program changes the world and returns a value or raises an exception.\<close>

type_synonym 'a prog = "world \<Rightarrow> (exn + 'a) \<times> world"

definition ret :: "'a \<Rightarrow> 'a prog" where
  "ret x = (\<lambda>w. (Inr x, w))"

definition raise :: "exn \<Rightarrow> 'a prog" where
  "raise e = (\<lambda>w. (Inl e, w))"

text \<open>Sequencing: an exception of the first program skips the second.\<close>

definition and_then :: "'a prog \<Rightarrow> ('a \<Rightarrow> 'b prog) \<Rightarrow> 'b prog" where
  "and_then m f = (\<lambda>w. case m w of (Inl e, w') \<Rightarrow> (Inl e, w') | (Inr x, w') \<Rightarrow> f x w')"

text \<open>\<^verbatim>\<open>try: m except C as e: h e\<close>, for the exception classes \<open>C\<close> that satisfy \<open>cls\<close>.\<close>

definition try_except :: "(exn \<Rightarrow> bool) \<Rightarrow> 'a prog \<Rightarrow> (exn \<Rightarrow> 'a prog) \<Rightarrow> 'a prog" where
  "try_except cls m h =
     (\<lambda>w. case m w of
            (Inl e, w') \<Rightarrow> (if cls e then h e w' else (Inl e, w'))
          | (Inr x, w') \<Rightarrow> (Inr x, w'))"

definition print :: "string \<Rightarrow> unit prog" where
  "print s = (\<lambda>w. (Inr (), wrote (Line s) w))"

definition print_volumes :: "volume_info list \<Rightarrow> unit prog" where
  "print_volumes vs = (\<lambda>w. (Inr (), wrote (Repr_volumes vs) w))"

text \<open>A request to EC2: it is recorded, and its outcome is the one the environment gives.\<close>

definition ec2 :: "ec2_call \<Rightarrow> (exn + 'a) \<Rightarrow> 'a prog" where
  "ec2 c outcome = (\<lambda>w. (outcome, called c w))"

text \<open>\<^verbatim>\<open>table.put_item(Item=item)\<close>: the item is stored when the call succeeds.\<close>

definition old_table_put_item :: "(exn + unit) \<Rightarrow> old_item \<Rightarrow> unit prog" where
  "old_table_put_item outcome item =
     (\<lambda>w. case outcome of
            Inl e \<Rightarrow> (Inl e, w)
          | Inr u \<Rightarrow> (Inr (), stored_old item w))"

definition new_table_put_item :: "(exn + unit) \<Rightarrow> new_item \<Rightarrow> unit prog" where
  "new_table_put_item outcome item =
     (\<lambda>w. case outcome of
            Inl e \<Rightarrow> (Inl e, w)
          | Inr u \<Rightarrow> (Inr (), stored_new item w))"

subsection \<open>The audit recorder\<close>

text \<open>
  \<^verbatim>\<open>record_old_volume\<close> and \<^verbatim>\<open>record_new_volume\<close>. The first two arguments are the
  outcome of the \<^verbatim>\<open>put_item\<close> call and the value of \<^verbatim>\<open>datetime.utcnow().isoformat()\<close>;
  the others are the source's, in its order.
\<close>

definition record_old_volume ::
  "(exn + unit) \<Rightarrow> string \<Rightarrow> string option \<Rightarrow> string \<Rightarrow> string \<Rightarrow> string option \<Rightarrow>
   int \<Rightarrow> int \<Rightarrow> int \<Rightarrow> string \<Rightarrow> unit prog" where
  "record_old_volume put now volume_id instance_id instance_name device_name
     size' iops throughput snapshot_id =
     try_except is_Exception
       (and_then
          (old_table_put_item put
             \<lparr>old_volume_id = volume_id,
              old_name = ''OLD-'' @ fmt volume_id,
              old_instancename = instance_name,
              old_instance_id = instance_id,
              old_devicename = device_name,
              old_size = size',
              old_iops = iops,
              old_throughput = throughput,
              old_snapshotid = snapshot_id,
              old_timestamp = now\<rparr>)
          (\<lambda>u. print (''[INFO] Logged OLD volume '' @ fmt volume_id @ '' into DynamoDB.'')))
       (\<lambda>e. print (''[ERROR] Failed to log old volume '' @ fmt volume_id @ '': '' @ exn_str e))"

definition record_new_volume ::
  "(exn + unit) \<Rightarrow> string \<Rightarrow> string \<Rightarrow> string \<Rightarrow> string \<Rightarrow> string \<Rightarrow> string option \<Rightarrow>
   int \<Rightarrow> int \<Rightarrow> int \<Rightarrow> string \<Rightarrow> string \<Rightarrow> string \<Rightarrow> unit prog" where
  "record_new_volume put now new_volume_id snapshot_id instance_id instance_name device_name
     size' iops throughput volume_type az sg_names =
     try_except is_Exception
       (and_then
          (new_table_put_item put
             \<lparr>new_volume = new_volume_id,
              new_source_snapshot = snapshot_id,
              new_instance_id = instance_id,
              new_instancename = instance_name,
              new_devicename = device_name,
              new_size = size',
              new_iops = iops,
              new_throughput = throughput,
              new_volume_type = volume_type,
              new_availability_zone = az,
              new_security_group_names = sg_names,
              new_timestamp = now\<rparr>)
          (\<lambda>u. print (''[INFO] Logged NEW volume '' @ new_volume_id @ '' into DynamoDB.'')))
       (\<lambda>e. print (''[ERROR] Failed to log new volume '' @ new_volume_id @ '': '' @ exn_str e))"

subsection \<open>The volume locators\<close>

definition EXCLUDE_DEVICES :: "string list" where
  "EXCLUDE_DEVICES = [''/dev/sda1'', ''/dev/xvda'']"

text \<open>\<^verbatim>\<open>x in xs\<close> for a list of strings and a value that may be \<^verbatim>\<open>None\<close>.\<close>

definition py_in :: "string option \<Rightarrow> string list \<Rightarrow> bool" where
  "py_in x xs = (case x of None \<Rightarrow> False | Some s \<Rightarrow> s \<in> set xs)"

text \<open>\<^verbatim>\<open>mapping.get("Ebs", {}).get("VolumeId")\<close>.\<close>

definition mapping_volume_id :: "block_device_mapping \<Rightarrow> string option" where
  "mapping_volume_id mapping = (case Ebs mapping of None \<Rightarrow> None | Some e \<Rightarrow> VolumeId e)"

text \<open>\<^verbatim>\<open>instance.get("BlockDeviceMappings", [])\<close>.\<close>

definition instance_mappings :: "ec2_instance \<Rightarrow> block_device_mapping list" where
  "instance_mappings i = (case BlockDeviceMappings i of None \<Rightarrow> [] | Some ms \<Rightarrow> ms)"

text \<open>The three nested loops over reservations, instances and mappings, in that order.\<close>

definition all_mappings :: "reservation list \<Rightarrow> block_device_mapping list" where
  "all_mappings response =
     concat (map (\<lambda>reservation. concat (map instance_mappings (Instances reservation))) response)"

text \<open>\<^verbatim>\<open>[v.strip() for v in volume_ids_csv.strip().split("|") if v.strip()]\<close>.\<close>

definition parse_volume_ids :: "string \<Rightarrow> string list" where
  "parse_volume_ids volume_ids_csv =
     map strip (filter (\<lambda>v. strip v \<noteq> []) (split_on CHR ''|'' (strip volume_ids_csv)))"

text \<open>
  The locators take the environment's answer to \<^verbatim>\<open>ec2.describe_instances\<close> as a function
  of the instance id. Only a \<^verbatim>\<open>ClientError\<close> is caught.
\<close>

definition get_filtered_attached_volumes ::
  "(string \<Rightarrow> exn + reservation list) \<Rightarrow> string \<Rightarrow> string \<Rightarrow> volume_info list prog" where
  "get_filtered_attached_volumes describe instance_id volume_ids_csv =
     try_except is_ClientError
       (let volume_ids = parse_volume_ids volume_ids_csv in
        and_then (ec2 (DescribeInstances instance_id) (describe instance_id)) (\<lambda>response.
        ret (concat (map (\<lambda>mapping.
               let device = DeviceName mapping; volume_id = mapping_volume_id mapping in
               if \<not> py_in device EXCLUDE_DEVICES \<and> py_in volume_id volume_ids
               then [\<lparr>vi_volume_id = volume_id, vi_device_name = device\<rparr>] else [])
             (all_mappings response)))))
       (\<lambda>e. and_then
          (print (''[ERROR] Unable to fetch volumes for instance '' @ instance_id @ '': '' @ exn_str e))
          (\<lambda>u. ret []))"

definition get_attached_volumes ::
  "(string \<Rightarrow> exn + reservation list) \<Rightarrow> string \<Rightarrow> volume_info list prog" where
  "get_attached_volumes describe instance_id =
     try_except is_ClientError
       (and_then (ec2 (DescribeInstances instance_id) (describe instance_id)) (\<lambda>response.
        ret (concat (map (\<lambda>mapping.
               let device = DeviceName mapping; volume_id = mapping_volume_id mapping in
               if \<not> py_in device EXCLUDE_DEVICES
               then [\<lparr>vi_volume_id = volume_id, vi_device_name = device\<rparr>] else [])
             (all_mappings response)))))
       (\<lambda>e. and_then
          (print (''[ERROR] Unable to fetch volumes for instance '' @ instance_id @ '': '' @ exn_str e))
          (\<lambda>u. ret []))"

subsection \<open>The worker \<^verbatim>\<open>snapshot_and_swap\<close>\<close>

text \<open>
  The environment of one worker: the outcome of each remote call it makes, in the order of
  the source, and the two clock readings. Every call site is reached at most once in a
  run, so one outcome per call site describes any behaviour of the services.
\<close>

record worker_env =
  volume_load :: "exn + volume"
  describe_instances :: "exn + reservation list"
  create_snapshot :: "exn + string"
  wait_snapshot_completed :: "exn + unit"
  create_tags_snapshot :: "exn + unit"
  old_put_item :: "exn + unit"
  utcnow_old :: string
  create_volume :: "exn + string"
  wait_new_volume_available :: "exn + unit"
  new_put_item :: "exn + unit"
  utcnow_new :: string
  detach_volume :: "exn + unit"
  wait_old_volume_available :: "exn + unit"
  attach_volume :: "exn + unit"
  create_tags_old_volume :: "exn + unit"

text \<open>\<^verbatim>\<open>x or 0\<close> and \<^verbatim>\<open>x or []\<close> for a value that may be \<^verbatim>\<open>None\<close>.\<close>

definition or_zero :: "int option \<Rightarrow> int" where
  "or_zero x = (case x of None \<Rightarrow> 0 | Some i \<Rightarrow> (if i = 0 then 0 else i))"

definition or_empty :: "'a list option \<Rightarrow> 'a list" where
  "or_empty x = (case x of None \<Rightarrow> [] | Some xs \<Rightarrow> xs)"

text \<open>\<^verbatim>\<open>response["Reservations"][0]["Instances"][0]\<close>: an empty list raises \<^verbatim>\<open>IndexError\<close>.\<close>

definition first_instance :: "reservation list \<Rightarrow> ec2_instance prog" where
  "first_instance response =
     (case response of
        [] \<Rightarrow> raise (IndexError ''list index out of range'')
      | reservation # rs \<Rightarrow>
          (case Instances reservation of
             [] \<Rightarrow> raise (IndexError ''list index out of range'')
           | i # is \<Rightarrow> ret i))"

text \<open>
  The \<^verbatim>\<open>try\<close> block of \<^verbatim>\<open>snapshot_and_swap\<close>, statement by statement. Tag values
  are strings here, so the \<open>device_name\<close> tag of an attachment without a device name
  carries the text \<open>None\<close> where Python passes the value \<^verbatim>\<open>None\<close>.
\<close>

definition snapshot_and_swap_try ::
  "worker_env \<Rightarrow> string \<Rightarrow> string option \<Rightarrow> string option \<Rightarrow> unit prog" where
  "snapshot_and_swap_try env INSTANCE_ID volume_id device_name =
     and_then (print (''[INFO] Processing volume '' @ fmt volume_id @ '' ('' @ fmt device_name @ '')'')) (\<lambda>u.
     and_then (ec2 (VolumeLoad volume_id) (volume_load env)) (\<lambda>volume.
     let az = vol_availability_zone volume;
         size' = vol_size volume;
         iops = or_zero (vol_iops volume);
         throughput = or_zero (vol_throughput volume);
         volume_type = vol_volume_type volume;
         encrypted = vol_encrypted volume;
         kmskey = vol_kms_key_id volume;
         tags = or_empty (vol_tags volume) in
     and_then (ec2 (DescribeInstances INSTANCE_ID) (describe_instances env)) (\<lambda>response.
     and_then (first_instance response) (\<lambda>instance_info.
     let sg_names = join '','' (map GroupName (or_empty (SecurityGroups instance_info)));
         name_tag = (case filter (\<lambda>tag. Key tag = ''Name'') (or_empty (Tags instance_info)) of
                       [] \<Rightarrow> ''Unknown'' | tag # ts \<Rightarrow> Value tag) in
     and_then (ec2 (CreateSnapshot volume_id (''Snapshot of '' @ fmt volume_id @ '' before swap''))
                 (create_snapshot env)) (\<lambda>snapshot_id.
     and_then (print (''[INFO] Snapshot '' @ snapshot_id @ '' initiated.'')) (\<lambda>u.
     and_then (print (''[INFO] KMS Key used: '' @ fmt kmskey)) (\<lambda>u.
     and_then (ec2 (WaitSnapshotCompleted snapshot_id) (wait_snapshot_completed env)) (\<lambda>u.
     and_then (print (''[INFO] Snapshot '' @ snapshot_id @ '' completed.'')) (\<lambda>u.
     let snapshot_tags = merge_tags tags
           [\<lparr>Key = ''Name'', Value = ''Snapshot-of-'' @ fmt volume_id\<rparr>,
            \<lparr>Key = ''device_name'', Value = fmt device_name\<rparr>,
            \<lparr>Key = ''VolumeType'', Value = volume_type\<rparr>,
            \<lparr>Key = ''Size'', Value = str_int size'\<rparr>,
            \<lparr>Key = ''IOPS'', Value = str_int iops\<rparr>,
            \<lparr>Key = ''Throughput'', Value = str_int throughput\<rparr>,
            \<lparr>Key = ''AvailabilityZone'', Value = az\<rparr>,
            \<lparr>Key = ''SecurityGroupName'', Value = sg_names\<rparr>,
            \<lparr>Key = ''kms_key_id'', Value = fmt kmskey\<rparr>] in
     and_then (ec2 (CreateTags (Some snapshot_id) snapshot_tags) (create_tags_snapshot env)) (\<lambda>u.
     and_then (record_old_volume (old_put_item env) (utcnow_old env) volume_id INSTANCE_ID name_tag
                 device_name size' iops throughput snapshot_id) (\<lambda>u.
     let extra_tags = merge_tags tags
           [\<lparr>Key = ''Name'', Value = ''Recreated-'' @ fmt volume_id\<rparr>,
            \<lparr>Key = ''SourceSnapshot'', Value = snapshot_id\<rparr>] in
     and_then (ec2 (CreateVolume
                      \<lparr>SnapshotId = snapshot_id,
                       AvailabilityZone = az,
                       VolumeType = volume_type,
                       Encrypted = encrypted,
                       Iops = iops,
                       Throughput = throughput,
                       Size = size',
                       KmsKeyId = kmskey,
                       TagSpecifications_Tags = extra_tags\<rparr>)
                 (create_volume env)) (\<lambda>new_volume_id.
     and_then (print (''[INFO] New volume '' @ new_volume_id @ '' creation started...'')) (\<lambda>u.
     and_then (ec2 (WaitVolumeAvailable (Some new_volume_id)) (wait_new_volume_available env)) (\<lambda>u.
     and_then (print (''[INFO] New volume '' @ new_volume_id @ '' is now available.'')) (\<lambda>u.
     and_then (record_new_volume (new_put_item env) (utcnow_new env) new_volume_id snapshot_id
                 INSTANCE_ID name_tag device_name size' iops throughput volume_type az sg_names) (\<lambda>u.
     and_then (print (''[INFO] Detaching old volume '' @ fmt volume_id @ ''...'')) (\<lambda>u.
     and_then (ec2 (DetachVolume volume_id INSTANCE_ID True) (detach_volume env)) (\<lambda>u.
     and_then (ec2 (WaitVolumeAvailable volume_id) (wait_old_volume_available env)) (\<lambda>u.
     and_then (print (''[INFO] Old volume '' @ fmt volume_id @ '' detached.'')) (\<lambda>u.
     and_then (print (''[INFO] Attaching new volume '' @ new_volume_id @ '' to device ''
                        @ fmt device_name @ ''...'')) (\<lambda>u.
     and_then (ec2 (AttachVolume new_volume_id INSTANCE_ID device_name) (attach_volume env)) (\<lambda>u.
     and_then (ec2 (CreateTags volume_id [\<lparr>Key = ''Name'', Value = ''OLD-'' @ fmt volume_id\<rparr>])
                 (create_tags_old_volume env)) (\<lambda>u.
     print (''[SUCCESS] Volume '' @ fmt volume_id @ '' swapped with '' @ new_volume_id
              @ '' using snapshot '' @ snapshot_id @ ''. Size: '' @ str_int size' @ '' GiB'')
     )))))))))))))))))))))))"

text \<open>
  How a call of the worker ends: it returns, or \<^verbatim>\<open>sys.exit(n)\<close> raises
  \<^verbatim>\<open>SystemExit(n)\<close> out of it.
\<close>

datatype completion = Returned | SystemExit int

text \<open>
  \<^verbatim>\<open>snapshot_and_swap\<close>: the \<^verbatim>\<open>try\<close> block and its three handlers, tried in the
  source's order; each prints its line and calls \<^verbatim>\<open>sys.exit(1)\<close>.
\<close>

definition snapshot_and_swap ::
  "worker_env \<Rightarrow> string \<Rightarrow> volume_info \<Rightarrow> world \<Rightarrow> completion \<times> world" where
  "snapshot_and_swap env INSTANCE_ID volume_info =
     (let volume_id = vi_volume_id volume_info; device_name = vi_device_name volume_info in
      (\<lambda>w. case snapshot_and_swap_try env INSTANCE_ID volume_id device_name w of
         (Inr u, w') \<Rightarrow> (Returned, w')
       | (Inl e, w') \<Rightarrow>
           (if is_WaiterError e then
              (SystemExit 1,
               snd (print (''[ERROR] Waiter failed for volume '' @ fmt volume_id @ '': '' @ exn_str e) w'))
            else if is_ClientError e then
              (SystemExit 1,
               snd (print (''[ERROR] AWS client error on volume '' @ fmt volume_id @ '': '' @ exn_str e) w'))
            else
              (SystemExit 1,
               snd (print (''[ERROR] Unexpected error on volume '' @ fmt volume_id @ '': '' @ exn_str e) w')))))"

subsection \<open>The driver \<^verbatim>\<open>main\<close>\<close>

text \<open>
  \<^verbatim>\<open>executor.map(fn, xs)\<close> of a \<^verbatim>\<open>ThreadPoolExecutor\<close>: every call runs in a pool
  thread, and what it returns or raises (\<^verbatim>\<open>SystemExit\<close> included) is stored in its
  future; the caller sees it only when it consumes the iterator that \<^verbatim>\<open>map\<close> returns.
  The pool has one thread per element. The model runs the calls one after the other in
  list order, which is one of the schedules, and returns the stored completions. The
  worker at position \<open>i\<close> gets the environment \<open>envs i\<close>.
\<close>

fun executor_map ::
  "(nat \<Rightarrow> 'a \<Rightarrow> world \<Rightarrow> completion \<times> world) \<Rightarrow> nat \<Rightarrow> 'a list \<Rightarrow> world
   \<Rightarrow> completion list \<times> world" where
  "executor_map fn i [] w = ([], w)"
| "executor_map fn i (x # xs) w =
     (case fn i x w of (c, w') \<Rightarrow>
        (case executor_map fn (Suc i) xs w' of (cs, w'') \<Rightarrow> (c # cs, w'')))"

record main_env =
  ec2_describe_instances :: "string \<Rightarrow> exn + reservation list"
  worker_envs :: "nat \<Rightarrow> worker_env"

text \<open>\<^verbatim>\<open>for x in xs: body(x)\<close>.\<close>

fun for_each :: "('a \<Rightarrow> unit prog) \<Rightarrow> 'a list \<Rightarrow> unit prog" where
  "for_each body [] = ret ()"
| "for_each body (x # xs) = and_then (body x) (\<lambda>u. for_each body xs)"

text \<open>
  The test \<^verbatim>\<open>volume_ids_csv and volume_ids_csv != "AllVolumes" and volume_ids_csv.strip()\<close>.
  The argument parser always yields a string; \<open>None\<close> stands for a missing value, which
  the test takes as false.
\<close>

definition filter_requested :: "string option \<Rightarrow> bool" where
  "filter_requested volume_ids_csv =
     (case volume_ids_csv of
        None \<Rightarrow> False
      | Some s \<Rightarrow> s \<noteq> [] \<and> s \<noteq> ''AllVolumes'' \<and> strip s \<noteq> [])"

text \<open>The first statement of \<^verbatim>\<open>main\<close> after the banner: the choice of the locator.\<close>

definition locate_volumes ::
  "main_env \<Rightarrow> string \<Rightarrow> string option \<Rightarrow> volume_info list prog" where
  "locate_volumes env INSTANCE_ID volume_ids_csv =
     (if filter_requested volume_ids_csv then
        and_then (get_filtered_attached_volumes (ec2_describe_instances env) INSTANCE_ID
                    (case volume_ids_csv of None \<Rightarrow> [] | Some s \<Rightarrow> s)) (\<lambda>all_volumes.
        and_then (print ''filtered volume ids'') (\<lambda>u. ret all_volumes))
      else
        and_then (get_attached_volumes (ec2_describe_instances env) INSTANCE_ID) (\<lambda>all_volumes.
        and_then (print ''All volumes'') (\<lambda>u. ret all_volumes)))"

text \<open>
  \<^verbatim>\<open>main\<close>, run as the script: the result is the exit status of the process, 0 when
  \<^verbatim>\<open>main\<close> returns and 1 when an exception leaves it. The iterator of
  \<^verbatim>\<open>executor.map\<close> is dropped, as in the source.
\<close>

definition main_body :: "main_env \<Rightarrow> string \<Rightarrow> string \<Rightarrow> string option \<Rightarrow> unit prog" where
  "main_body env REGION INSTANCE_ID volume_ids_csv =
     and_then (print ''Inside script'') (\<lambda>u.
     and_then (print REGION) (\<lambda>u.
     and_then (print INSTANCE_ID) (\<lambda>u.
     and_then (print (fmt volume_ids_csv)) (\<lambda>u.
     and_then (locate_volumes env INSTANCE_ID volume_ids_csv) (\<lambda>all_volumes.
     and_then (print_volumes all_volumes) (\<lambda>u.
     if all_volumes = [] then print ''[WARN] No eligible volumes found.''
     else
       and_then (print ''[INFO] The following volumes will be processed:'') (\<lambda>u.
       and_then (for_each (\<lambda>v. print (''  - '' @ fmt (vi_volume_id v) @ '' (''
                                          @ fmt (vi_device_name v) @ '')'')) all_volumes) (\<lambda>u.
       and_then (\<lambda>w. case executor_map (\<lambda>i. snapshot_and_swap (worker_envs env i) INSTANCE_ID)
                                0 all_volumes w of
                        (futures, w') \<Rightarrow> (Inr (), w')) (\<lambda>u.
       print ''[INFO] All volume operations completed.'')))))))))"

definition main :: "main_env \<Rightarrow> string \<Rightarrow> string \<Rightarrow> string option \<Rightarrow> world \<Rightarrow> int \<times> world" where
  "main env REGION INSTANCE_ID volume_ids_csv =
     (\<lambda>w. case main_body env REGION INSTANCE_ID volume_ids_csv w of
            (Inr u, w') \<Rightarrow> (0, w')
          | (Inl e, w') \<Rightarrow> (1, w'))"

subsection \<open>Observations\<close>

text \<open>The requests that attach a volume, and the requests that create one.\<close>

fun is_AttachVolume :: "ec2_call \<Rightarrow> bool" where
  "is_AttachVolume (AttachVolume v i d) = True"
| "is_AttachVolume c = False"

fun is_CreateVolume :: "ec2_call \<Rightarrow> bool" where
  "is_CreateVolume (CreateVolume r) = True"
| "is_CreateVolume c = False"

subsection \<open>Scenarios\<close>

text \<open>
  An instance with a root device and two data volumes, a world in which nothing has
  happened yet, and a worker environment in which every remote call succeeds; its volume
  is encrypted under a KMS key.
\<close>

definition scenario_response :: "reservation list" where
  "scenario_response =
     [\<lparr>Instances =
        [\<lparr>BlockDeviceMappings = Some
             [\<lparr>DeviceName = Some ''/dev/xvda'', Ebs = Some \<lparr>VolumeId = Some ''vol-0''\<rparr>\<rparr>,
              \<lparr>DeviceName = Some ''/dev/sdf'', Ebs = Some \<lparr>VolumeId = Some ''vol-1''\<rparr>\<rparr>,
              \<lparr>DeviceName = Some ''/dev/sdg'', Ebs = Some \<lparr>VolumeId = Some ''vol-2''\<rparr>\<rparr>],
          SecurityGroups = Some [\<lparr>GroupName = ''web''\<rparr>],
          Tags = Some [\<lparr>Key = ''Name'', Value = ''app-1''\<rparr>]\<rparr>]\<rparr>]"

definition scenario_describe :: "string \<Rightarrow> exn + reservation list" where
  "scenario_describe i = Inr scenario_response"

definition world0 :: world where
  "world0 = \<lparr>stdout = [], ec2_calls = [], old_table = [], new_table = []\<rparr>"

definition ok_worker_env :: worker_env where
  "ok_worker_env =
     \<lparr>volume_load = Inr \<lparr>vol_availability_zone = ''us-east-1a'', vol_size = 100,
                          vol_iops = Some 3000, vol_throughput = None, vol_volume_type = ''gp3'',
                          vol_encrypted = True,
                          vol_kms_key_id = Some ''arn:aws:kms:us-east-1:111122223333:key/k-1'',
                          vol_tags = Some [\<lparr>Key = ''Name'', Value = ''data''\<rparr>]\<rparr>,
      describe_instances = Inr scenario_response,
      create_snapshot = Inr ''snap-1'',
      wait_snapshot_completed = Inr (),
      create_tags_snapshot = Inr (),
      old_put_item = Inr (),
      utcnow_old = ''2025-01-01T00:00:00'',
      create_volume = Inr ''vol-9'',
      wait_new_volume_available = Inr (),
      new_put_item = Inr (),
      utcnow_new = ''2025-01-01T00:05:00'',
      detach_volume = Inr (),
      wait_old_volume_available = Inr (),
      attach_volume = Inr (),
      create_tags_old_volume = Inr ()\<rparr>"

text \<open>The same environment with a snapshot wait that runs out of attempts.\<close>

definition timeout_worker_env :: worker_env where
  "timeout_worker_env =
     ok_worker_env\<lparr>wait_snapshot_completed :=
        Inl (WaiterError ''Waiter SnapshotCompleted failed: Max attempts exceeded'')\<rparr>"

text \<open>The same environment with a rejected write to the first audit table.\<close>

definition rejected_put_worker_env :: worker_env where
  "rejected_put_worker_env =
     ok_worker_env\<lparr>old_put_item := Inl (ClientError ''AccessDeniedException'')\<rparr>"

definition scenario_main_env :: main_env where
  "scenario_main_env =
     \<lparr>ec2_describe_instances = scenario_describe, worker_envs = (\<lambda>i. ok_worker_env)\<rparr>"

definition timeout_main_env :: main_env where
  "timeout_main_env =
     \<lparr>ec2_describe_instances = scenario_describe, worker_envs = (\<lambda>i. timeout_worker_env)\<rparr>"

subsection \<open>Properties of \<^verbatim>\<open>merge_tags\<close>\<close>

lemma map_of_fold_setitem:
  "map_of (fold (\<lambda>tag d. dict_setitem d (Key tag) (Value tag)) ts d)
     = map_of d ++ map_of (rev (tag_items ts))"
proof (induction ts arbitrary: d)
  case Nil
  show ?case by (simp add: tag_items_def)
next
  case (Cons t ts)
  have "map_of (fold (\<lambda>tag d. dict_setitem d (Key tag) (Value tag)) (t # ts) d)
          = map_of (dict_setitem d (Key t) (Value t)) ++ map_of (rev (tag_items ts))"
    using Cons.IH by simp
  also have "\<dots> = (map_of d ++ [Key t \<mapsto> Value t]) ++ map_of (rev (tag_items ts))"
    by (simp add: dict_setitem_def update_conv')
  also have "\<dots> = map_of d ++ map_of (rev (tag_items (t # ts)))"
    by (simp add: tag_items_def)
  finally show ?case .
qed

lemma distinct_fold_setitem:
  "distinct (map fst d) \<Longrightarrow>
   distinct (map fst (fold (\<lambda>tag d. dict_setitem d (Key tag) (Value tag)) ts d))"
  by (induction ts arbitrary: d) (simp_all add: dict_setitem_def distinct_update)

lemma tag_items_of_dict:
  "tag_items (map (\<lambda>(k, v). \<lparr>Key = k, Value = v\<rparr>) d) = d"
  by (induction d) (auto simp: tag_items_def)

lemma map_Key_tag_items: "map Key ts = map fst (tag_items ts)"
  by (simp add: tag_items_def)

lemma tag_items_merge_tags:
  "map_of (tag_items (merge_tags b n)) = map_of (rev (tag_items b)) ++ map_of (rev (tag_items n))"
  by (simp add: merge_tags_def Let_def tag_items_of_dict map_of_fold_setitem)

lemma distinct_merge_tags: "distinct (map Key (merge_tags b n))"
proof -
  have "distinct (map fst (tag_items (merge_tags b n)))"
    unfolding merge_tags_def Let_def tag_items_of_dict
    by (intro distinct_fold_setitem) simp
  then show ?thesis by (simp only: map_Key_tag_items)
qed

lemma Key_set_tag_items: "Key ` set ts = fst ` set (tag_items ts)"
  by (force simp: tag_items_def)

lemma Key_set_merge_tags: "Key ` set (merge_tags b n) = Key ` set b \<union> Key ` set n"
proof -
  have "fst ` set (tag_items (merge_tags b n)) = dom (map_of (tag_items (merge_tags b n)))"
    by (simp add: dom_map_of_conv_image_fst)
  also have "\<dots> = dom (map_of (rev (tag_items b))) \<union> dom (map_of (rev (tag_items n)))"
    by (simp add: tag_items_merge_tags Un_commute)
  also have "\<dots> = fst ` set (tag_items b) \<union> fst ` set (tag_items n)"
    by (simp add: dom_map_of_conv_image_fst)
  finally show ?thesis by (simp add: Key_set_tag_items)
qed

text \<open>
  Claim C7. For all base and override tag lists, the keys of \<open>merge_tags\<close>' result are
  exactly the union of the keys of both inputs; read as a mapping, the result is the base
  mapping overridden by the override mapping (the override's value wins on a key of both);
  and with no overrides the result, read as a mapping, is the base mapping. A list is read
  as a mapping the way the dictionary comprehension reads it: a later entry for a key
  replaces an earlier one.
\<close>

theorem merge_tags_union_override_wins:
  "Key ` set (merge_tags b n) = Key ` set b \<union> Key ` set n
   \<and> map_of (tag_items (merge_tags b n))
       = map_of (rev (tag_items b)) ++ map_of (rev (tag_items n))
   \<and> map_of (tag_items (merge_tags b [])) = map_of (rev (tag_items b))"
  using Key_set_merge_tags [of b n] tag_items_merge_tags [of b n] tag_items_merge_tags [of b "[]"]
  by (simp add: tag_items_def)

lemma filter_key_distinct:
  "distinct (map Key ts) \<Longrightarrow> map_of (tag_items ts) k = Some v \<Longrightarrow>
   filter (\<lambda>t. Key t = k) ts = [\<lparr>Key = k, Value = v\<rparr>]"
proof (induction ts)
  case Nil
  then show ?case by (simp add: tag_items_def)
next
  case (Cons t ts)
  show ?case
  proof (cases "Key t = k")
    case True
    have "k \<notin> Key ` set ts" using Cons.prems(1) True by auto
    then have "filter (\<lambda>t. Key t = k) ts = []" by (auto simp: filter_empty_conv)
    moreover have "Value t = v" using Cons.prems(2) True by (simp add: tag_items_def)
    ultimately show ?thesis using True by simp
  next
    case False
    then show ?thesis using Cons by (simp add: tag_items_def)
  qed
qed

lemma map_of_rev_last:
  "k \<in> Key ` set ts \<Longrightarrow>
   map_of (rev (tag_items ts)) k = Some (Value (last (filter (\<lambda>t. Key t = k) ts)))"
proof (induction ts rule: rev_induct)
  case Nil
  then show ?case by simp
next
  case (snoc t ts)
  show ?case
  proof (cases "Key t = k")
    case True
    then show ?thesis by (simp add: tag_items_def)
  next
    case False
    then have "k \<in> Key ` set ts" using snoc.prems by auto
    then show ?thesis using snoc.IH False by (simp add: tag_items_def)
  qed
qed

text \<open>
  The example of the specification: base \<open>{Name: Old}\<close>, override \<open>{Name: New, Env: Prod}\<close>.
\<close>

theorem merge_tags_union_override_wins_witness:
  "merge_tags [\<lparr>Key = ''Name'', Value = ''Old''\<rparr>]
              [\<lparr>Key = ''Name'', Value = ''New''\<rparr>, \<lparr>Key = ''Env'', Value = ''Prod''\<rparr>]
     = [\<lparr>Key = ''Name'', Value = ''New''\<rparr>, \<lparr>Key = ''Env'', Value = ''Prod''\<rparr>]
   \<and> Key ` set (merge_tags [\<lparr>Key = ''Name'', Value = ''Old''\<rparr>]
              [\<lparr>Key = ''Name'', Value = ''New''\<rparr>, \<lparr>Key = ''Env'', Value = ''Prod''\<rparr>])
       = {''Name'', ''Env''}"
  using merge_tags_union_override_wins [of "[\<lparr>Key = ''Name'', Value = ''Old''\<rparr>]"
      "[\<lparr>Key = ''Name'', Value = ''New''\<rparr>, \<lparr>Key = ''Env'', Value = ''Prod''\<rparr>]"]
  by (simp add: merge_tags_def dict_setitem_def)

text \<open>
  Claim C9. The output of \<open>merge_tags\<close> never has two entries with the same key. A key of
  the base list has exactly one entry in the output, however often it occurs in the base
  list; and when no override names that key, the entry carries the value of the key's
  last occurrence in the base list.
\<close>

theorem merge_tags_duplicate_base_keys:
  "distinct (map Key (merge_tags b n))
   \<and> (k \<in> Key ` set b \<longrightarrow> length (filter (\<lambda>t. Key t = k) (merge_tags b n)) = 1)
   \<and> (k \<in> Key ` set b \<longrightarrow> k \<notin> Key ` set n \<longrightarrow>
        filter (\<lambda>t. Key t = k) (merge_tags b n)
          = [\<lparr>Key = k, Value = Value (last (filter (\<lambda>t. Key t = k) b))\<rparr>])"
proof (intro conjI impI)
  show d: "distinct (map Key (merge_tags b n))" by (rule distinct_merge_tags)
  {
    assume kb: "k \<in> Key ` set b"
    then have "k \<in> Key ` set (merge_tags b n)" by (simp add: Key_set_merge_tags)
    then have "k \<in> dom (map_of (tag_items (merge_tags b n)))"
      by (simp add: dom_map_of_conv_image_fst Key_set_tag_items)
    then obtain v where "map_of (tag_items (merge_tags b n)) k = Some v" by auto
    from filter_key_distinct [OF d this]
    show "length (filter (\<lambda>t. Key t = k) (merge_tags b n)) = 1" by simp
  }
  {
    assume kb: "k \<in> Key ` set b" and kn: "k \<notin> Key ` set n"
    have "map_of (rev (tag_items n)) k = None"
      using kn by (simp add: map_of_eq_None_iff Key_set_tag_items)
    then have "map_of (tag_items (merge_tags b n)) k = map_of (rev (tag_items b)) k"
      by (simp add: tag_items_merge_tags map_add_def)
    also have "\<dots> = Some (Value (last (filter (\<lambda>t. Key t = k) b)))"
      by (rule map_of_rev_last [OF kb])
    finally show "filter (\<lambda>t. Key t = k) (merge_tags b n)
          = [\<lparr>Key = k, Value = Value (last (filter (\<lambda>t. Key t = k) b))\<rparr>]"
      by (rule filter_key_distinct [OF d])
  }
qed

text \<open>A base list with the key \<open>Name\<close> twice, and an override of another key.\<close>

theorem merge_tags_duplicate_base_keys_witness:
  "merge_tags [\<lparr>Key = ''Name'', Value = ''a''\<rparr>, \<lparr>Key = ''Env'', Value = ''x''\<rparr>,
               \<lparr>Key = ''Name'', Value = ''b''\<rparr>] [\<lparr>Key = ''Env'', Value = ''y''\<rparr>]
     = [\<lparr>Key = ''Name'', Value = ''b''\<rparr>, \<lparr>Key = ''Env'', Value = ''y''\<rparr>]
   \<and> filter (\<lambda>t. Key t = ''Name'')
        (merge_tags [\<lparr>Key = ''Name'', Value = ''a''\<rparr>, \<lparr>Key = ''Env'', Value = ''x''\<rparr>,
               \<lparr>Key = ''Name'', Value = ''b''\<rparr>] [\<lparr>Key = ''Env'', Value = ''y''\<rparr>])
       = [\<lparr>Key = ''Name'', Value = ''b''\<rparr>]"
  using merge_tags_duplicate_base_keys
    [of "[\<lparr>Key = ''Name'', Value = ''a''\<rparr>, \<lparr>Key = ''Env'', Value = ''x''\<rparr>,
          \<lparr>Key = ''Name'', Value = ''b''\<rparr>]" "[\<lparr>Key = ''Env'', Value = ''y''\<rparr>]" "''Name''"]
  by (simp add: merge_tags_def dict_setitem_def)

subsection \<open>Properties of the filter parser\<close>

lemma split_on_not_Nil: "split_on sep s \<noteq> []"
  by (induction s) (auto split: list.splits)

lemma split_on_Cons_other:
  "c \<noteq> sep \<Longrightarrow> split_on sep (c # cs) = (c # hd (split_on sep cs)) # tl (split_on sep cs)"
  using split_on_not_Nil [of sep cs] by (cases "split_on sep cs") simp_all

lemma split_on_snoc_other:
  "c \<noteq> sep \<Longrightarrow>
   split_on sep (cs @ [c]) = butlast (split_on sep cs) @ [last (split_on sep cs) @ [c]]"
proof (induction cs)
  case Nil
  then show ?case by simp
next
  case (Cons x xs)
  show ?case
  proof (cases "x = sep")
    case True
    then show ?thesis using Cons split_on_not_Nil [of sep xs] by simp
  next
    case False
    obtain t ts where ts: "split_on sep xs = t # ts"
      using split_on_not_Nil [of sep xs] by (cases "split_on sep xs") auto
    show ?thesis using False Cons ts by (cases ts) simp_all
  qed
qed

lemma rstrip_Cons:
  "rstrip (c # cs) = (if isspace c \<and> (\<forall>x\<in>set cs. isspace x) then [] else c # rstrip cs)"
  by (auto simp: rstrip_def dropWhile_append)

lemma rstrip_snoc: "rstrip (cs @ [c]) = (if isspace c then rstrip cs else cs @ [c])"
  by (simp add: rstrip_def)

lemma rstrip_all_space: "(\<forall>x\<in>set cs. isspace x) \<Longrightarrow> rstrip cs = []"
  by (simp add: rstrip_def)

lemma lstrip_rstrip: "lstrip (rstrip s) = rstrip (lstrip s)"
proof (induction s)
  case Nil
  show ?case by (simp add: lstrip_def rstrip_def)
next
  case (Cons c cs)
  show ?case
  proof (cases "isspace c")
    case True
    then show ?thesis using Cons
      by (auto simp: rstrip_Cons lstrip_def rstrip_all_space)
  next
    case False
    then show ?thesis by (simp add: rstrip_Cons lstrip_def)
  qed
qed

lemma strip_Cons_space: "isspace c \<Longrightarrow> strip (c # cs) = strip cs"
  by (simp add: strip_def lstrip_def)

lemma strip_snoc_space: "isspace c \<Longrightarrow> strip (cs @ [c]) = strip cs"
  by (simp add: strip_def lstrip_rstrip [symmetric] rstrip_snoc)

lemma map_strip_split_Cons_space:
  assumes "isspace c" and "c \<noteq> sep"
  shows "map strip (split_on sep (c # cs)) = map strip (split_on sep cs)"
proof -
  obtain t ts where ts: "split_on sep cs = t # ts"
    using split_on_not_Nil [of sep cs] by (cases "split_on sep cs") auto
  show ?thesis using assms ts by (simp add: strip_Cons_space)
qed

lemma map_strip_split_snoc_space:
  assumes "isspace c" and "c \<noteq> sep"
  shows "map strip (split_on sep (cs @ [c])) = map strip (split_on sep cs)"
proof -
  have "map strip (split_on sep (cs @ [c]))
          = map strip (butlast (split_on sep cs)) @ [strip (last (split_on sep cs))]"
    using assms by (simp add: split_on_snoc_other strip_snoc_space)
  also have "\<dots> = map strip (butlast (split_on sep cs) @ [last (split_on sep cs)])"
    by simp
  also have "\<dots> = map strip (split_on sep cs)"
    using split_on_not_Nil [of sep cs] by simp
  finally show ?thesis .
qed

lemma map_strip_split_lstrip:
  "\<not> isspace sep \<Longrightarrow> map strip (split_on sep (lstrip s)) = map strip (split_on sep s)"
proof (induction s)
  case Nil
  show ?case by (simp add: lstrip_def)
next
  case (Cons c cs)
  show ?case
  proof (cases "isspace c")
    case True
    then have "c \<noteq> sep" using Cons.prems by auto
    have "lstrip (c # cs) = lstrip cs" using True by (simp add: lstrip_def)
    then show ?thesis
      using Cons map_strip_split_Cons_space [OF True \<open>c \<noteq> sep\<close>] by simp
  next
    case False
    then show ?thesis by (simp add: lstrip_def)
  qed
qed

lemma map_strip_split_rstrip:
  "\<not> isspace sep \<Longrightarrow> map strip (split_on sep (rstrip s)) = map strip (split_on sep s)"
proof (induction s rule: rev_induct)
  case Nil
  show ?case by (simp add: rstrip_def)
next
  case (snoc c cs)
  show ?case
  proof (cases "isspace c")
    case True
    then have "c \<noteq> sep" using snoc.prems by auto
    show ?thesis
      using snoc True map_strip_split_snoc_space [OF True \<open>c \<noteq> sep\<close>]
      by (simp add: rstrip_snoc)
  next
    case False
    then show ?thesis by (simp add: rstrip_snoc)
  qed
qed

lemma map_strip_split_strip:
  "\<not> isspace sep \<Longrightarrow> map strip (split_on sep (strip s)) = map strip (split_on sep s)"
  by (simp add: strip_def map_strip_split_rstrip map_strip_split_lstrip)

lemma bar_not_space: "\<not> isspace CHR ''|''"
  by (simp add: isspace_def)

lemma parse_volume_ids_tokens:
  "parse_volume_ids s = filter (\<lambda>v. v \<noteq> []) (map strip (split_on CHR ''|'' s))"
proof -
  have "parse_volume_ids s
          = filter (\<lambda>v. v \<noteq> []) (map strip (split_on CHR ''|'' (strip s)))"
    by (simp add: parse_volume_ids_def filter_map comp_def)
  then show ?thesis by (simp add: map_strip_split_strip bar_not_space)
qed

subsection \<open>Properties of the locators\<close>

lemma py_in_set: "py_in x xs = (x \<in> Some ` set xs)"
  by (cases x) (auto simp: py_in_def)

lemma concat_map_if:
  "concat (map (\<lambda>x. if P x then [f x] else []) xs) = map f (filter P xs)"
  by (induction xs) simp_all

lemma get_filtered_attached_volumes_ok:
  "describe instance_id = Inr response \<Longrightarrow>
   get_filtered_attached_volumes describe instance_id csv w =
     (Inr (map (\<lambda>m. \<lparr>vi_volume_id = mapping_volume_id m, vi_device_name = DeviceName m\<rparr>)
            (filter (\<lambda>m. DeviceName m \<notin> Some ` set EXCLUDE_DEVICES
                          \<and> mapping_volume_id m \<in> Some ` set (parse_volume_ids csv))
               (all_mappings response))),
      called (DescribeInstances instance_id) w)"
  by (simp add: get_filtered_attached_volumes_def try_except_def and_then_def ec2_def ret_def
      Let_def py_in_set concat_map_if)

lemma get_attached_volumes_ok:
  "describe instance_id = Inr response \<Longrightarrow>
   get_attached_volumes describe instance_id w =
     (Inr (map (\<lambda>m. \<lparr>vi_volume_id = mapping_volume_id m, vi_device_name = DeviceName m\<rparr>)
            (filter (\<lambda>m. DeviceName m \<notin> Some ` set EXCLUDE_DEVICES) (all_mappings response))),
      called (DescribeInstances instance_id) w)"
  by (simp add: get_attached_volumes_def try_except_def and_then_def ec2_def ret_def
      Let_def py_in_set concat_map_if)

text \<open>
  Claim C6. When EC2 answers the lookup, the filtered locator returns exactly the
  attachments whose device name is not in \<open>EXCLUDE_DEVICES\<close> and whose volume id is one of
  the identifiers of the filter, in the order in which the answer lists them; two filters
  with the same set of identifiers (in any order, with any repetitions) give the same
  result; and every returned entry has a device name outside \<open>EXCLUDE_DEVICES\<close>.
\<close>

theorem get_filtered_attached_volumes_result:
  "describe instance_id = Inr response \<Longrightarrow>
   fst (get_filtered_attached_volumes describe instance_id csv w)
     = Inr (map (\<lambda>m. \<lparr>vi_volume_id = mapping_volume_id m, vi_device_name = DeviceName m\<rparr>)
             (filter (\<lambda>m. DeviceName m \<notin> Some ` set EXCLUDE_DEVICES
                           \<and> mapping_volume_id m \<in> Some ` set (parse_volume_ids csv))
                (all_mappings response)))
   \<and> (set (parse_volume_ids csv') = set (parse_volume_ids csv) \<longrightarrow>
        fst (get_filtered_attached_volumes describe instance_id csv' w)
          = fst (get_filtered_attached_volumes describe instance_id csv w))
   \<and> (\<forall>vs. fst (get_filtered_attached_volumes describe instance_id csv w) = Inr vs \<longrightarrow>
         (\<forall>v\<in>set vs. vi_device_name v \<notin> Some ` set EXCLUDE_DEVICES))"
  by (auto simp: get_filtered_attached_volumes_ok)

lemma scenario_mappings:
  "all_mappings scenario_response =
     [\<lparr>DeviceName = Some ''/dev/xvda'', Ebs = Some \<lparr>VolumeId = Some ''vol-0''\<rparr>\<rparr>,
      \<lparr>DeviceName = Some ''/dev/sdf'', Ebs = Some \<lparr>VolumeId = Some ''vol-1''\<rparr>\<rparr>,
      \<lparr>DeviceName = Some ''/dev/sdg'', Ebs = Some \<lparr>VolumeId = Some ''vol-2''\<rparr>\<rparr>]"
  by (simp add: all_mappings_def scenario_response_def instance_mappings_def)

lemma parse_examples:
  "parse_volume_ids ''vol-2|vol-0|vol-2'' = [''vol-2'', ''vol-0'', ''vol-2'']"
  "parse_volume_ids ''vol-0|vol-2'' = [''vol-0'', ''vol-2'']"
  "parse_volume_ids ''vol-1'' = [''vol-1'']"
  "parse_volume_ids ''all'' = [''all'']"
  by (simp_all add: parse_volume_ids_tokens strip_def lstrip_def rstrip_def isspace_def)

text \<open>The scenario instance with the filters \<open>vol-0|vol-2\<close> and \<open>vol-2|vol-0|vol-2\<close>.\<close>

theorem get_filtered_attached_volumes_result_witness:
  "scenario_describe ''i-1'' = Inr scenario_response
   \<and> set (parse_volume_ids ''vol-2|vol-0|vol-2'') = set (parse_volume_ids ''vol-0|vol-2'')
   \<and> fst (get_filtered_attached_volumes scenario_describe ''i-1'' ''vol-0|vol-2'' world0)
       = Inr [\<lparr>vi_volume_id = Some ''vol-2'', vi_device_name = Some ''/dev/sdg''\<rparr>]
   \<and> fst (get_filtered_attached_volumes scenario_describe ''i-1'' ''vol-2|vol-0|vol-2'' world0)
       = fst (get_filtered_attached_volumes scenario_describe ''i-1'' ''vol-0|vol-2'' world0)"
proof -
  have d: "scenario_describe ''i-1'' = Inr scenario_response"
    by (simp add: scenario_describe_def)
  have s: "set (parse_volume_ids ''vol-2|vol-0|vol-2'') = set (parse_volume_ids ''vol-0|vol-2'')"
    by (auto simp: parse_examples)
  note r = get_filtered_attached_volumes_result
    [where describe = scenario_describe and instance_id = "''i-1''"
       and response = scenario_response and csv = "''vol-0|vol-2''"
       and csv' = "''vol-2|vol-0|vol-2''" and w = world0, OF d]
  have v: "fst (get_filtered_attached_volumes scenario_describe ''i-1'' ''vol-0|vol-2'' world0)
       = Inr [\<lparr>vi_volume_id = Some ''vol-2'', vi_device_name = Some ''/dev/sdg''\<rparr>]"
    using r by (simp add: scenario_mappings parse_examples EXCLUDE_DEVICES_def mapping_volume_id_def)
  show ?thesis using d s v r by blast
qed



subsection \<open>Running the worker\<close>

lemma world_projections [simp]:
  "stdout (wrote x w) = stdout w @ [x]"
  "ec2_calls (wrote x w) = ec2_calls w"
  "old_table (wrote x w) = old_table w"
  "new_table (wrote x w) = new_table w"
  "stdout (called c w) = stdout w"
  "ec2_calls (called c w) = ec2_calls w @ [c]"
  "old_table (called c w) = old_table w"
  "new_table (called c w) = new_table w"
  "stdout (stored_old i w) = stdout w"
  "ec2_calls (stored_old i w) = ec2_calls w"
  "old_table (stored_old i w) = old_table w @ [i]"
  "new_table (stored_old i w) = new_table w"
  "stdout (stored_new j w) = stdout w"
  "ec2_calls (stored_new j w) = ec2_calls w"
  "old_table (stored_new j w) = old_table w"
  "new_table (stored_new j w) = new_table w @ [j]"
  by (simp_all add: wrote_def called_def stored_old_def stored_new_def)

lemma print_apply: "print s w = (Inr (), wrote (Line s) w)"
  by (simp add: print_def)

lemma and_then_print: "and_then (print s) f w = f () (wrote (Line s) w)"
  by (simp add: and_then_def print_def)

lemma and_then_ec2:
  "and_then (ec2 c outcome) f w =
     (case outcome of Inl e \<Rightarrow> (Inl e, called c w) | Inr x \<Rightarrow> f x (called c w))"
  by (simp add: and_then_def ec2_def split: sum.splits)

lemma and_then_first_instance:
  "and_then (first_instance response) f w =
     (case response of
        [] \<Rightarrow> (Inl (IndexError ''list index out of range''), w)
      | reservation # rs \<Rightarrow>
          (case Instances reservation of
             [] \<Rightarrow> (Inl (IndexError ''list index out of range''), w)
           | i # is \<Rightarrow> f i w))"
  by (simp add: and_then_def first_instance_def raise_def ret_def split: list.splits)

lemma record_old_volume_apply:
  "record_old_volume put now volume_id instance_id instance_name device_name size' iops throughput
     snapshot_id w =
   (Inr (),
    case put of
      Inl e \<Rightarrow> wrote (Line (''[ERROR] Failed to log old volume '' @ fmt volume_id @ '': ''
                             @ exn_str e)) w
    | Inr u \<Rightarrow> wrote (Line (''[INFO] Logged OLD volume '' @ fmt volume_id @ '' into DynamoDB.''))
               (stored_old
                 \<lparr>old_volume_id = volume_id,
                   old_name = ''OLD-'' @ fmt volume_id,
                   old_instancename = instance_name,
                   old_instance_id = instance_id,
                   old_devicename = device_name,
                   old_size = size',
                   old_iops = iops,
                   old_throughput = throughput,
                   old_snapshotid = snapshot_id,
                   old_timestamp = now\<rparr> w))"
  by (cases put)
     (simp_all add: record_old_volume_def try_except_def and_then_def old_table_put_item_def
        print_def is_Exception_def)

lemma record_new_volume_apply:
  "record_new_volume put now new_volume_id snapshot_id instance_id instance_name device_name
     size' iops throughput volume_type az sg_names w =
   (Inr (),
    case put of
      Inl e \<Rightarrow> wrote (Line (''[ERROR] Failed to log new volume '' @ new_volume_id @ '': ''
                             @ exn_str e)) w
    | Inr u \<Rightarrow> wrote (Line (''[INFO] Logged NEW volume '' @ new_volume_id @ '' into DynamoDB.''))
               (stored_new
                 \<lparr>new_volume = new_volume_id,
                   new_source_snapshot = snapshot_id,
                   new_instance_id = instance_id,
                   new_instancename = instance_name,
                   new_devicename = device_name,
                   new_size = size',
                   new_iops = iops,
                   new_throughput = throughput,
                   new_volume_type = volume_type,
                   new_availability_zone = az,
                   new_security_group_names = sg_names,
                   new_timestamp = now\<rparr> w))"
  by (cases put)
     (simp_all add: record_new_volume_def try_except_def and_then_def new_table_put_item_def
        print_def is_Exception_def)

lemma and_then_record_old:
  "and_then (record_old_volume put now volume_id instance_id instance_name device_name size' iops
     throughput snapshot_id) f w =
   f () (snd (record_old_volume put now volume_id instance_id instance_name device_name size' iops
     throughput snapshot_id w))"
  by (simp add: and_then_def record_old_volume_apply)

lemma and_then_record_new:
  "and_then (record_new_volume put now new_volume_id snapshot_id instance_id instance_name
     device_name size' iops throughput volume_type az sg_names) f w =
   f () (snd (record_new_volume put now new_volume_id snapshot_id instance_id instance_name
     device_name size' iops throughput volume_type az sg_names w))"
  by (simp add: and_then_def record_new_volume_apply)

lemma record_old_volume_world:
  "ec2_calls (snd (record_old_volume put now volume_id instance_id instance_name device_name size'
     iops throughput snapshot_id w)) = ec2_calls w"
  "new_table (snd (record_old_volume put now volume_id instance_id instance_name device_name size'
     iops throughput snapshot_id w)) = new_table w"
  "old_table (snd (record_old_volume put now volume_id instance_id instance_name device_name size'
     iops throughput snapshot_id w)) =
   old_table w @ (case put of Inl e \<Rightarrow> [] | Inr u \<Rightarrow>
                 [\<lparr>old_volume_id = volume_id,
                   old_name = ''OLD-'' @ fmt volume_id,
                   old_instancename = instance_name,
                   old_instance_id = instance_id,
                   old_devicename = device_name,
                   old_size = size',
                   old_iops = iops,
                   old_throughput = throughput,
                   old_snapshotid = snapshot_id,
                   old_timestamp = now\<rparr>])"
  by (simp_all add: record_old_volume_apply split: sum.splits)

lemma record_new_volume_world:
  "ec2_calls (snd (record_new_volume put now new_volume_id snapshot_id instance_id instance_name
     device_name size' iops throughput volume_type az sg_names w)) = ec2_calls w"
  "old_table (snd (record_new_volume put now new_volume_id snapshot_id instance_id instance_name
     device_name size' iops throughput volume_type az sg_names w)) = old_table w"
  "new_table (snd (record_new_volume put now new_volume_id snapshot_id instance_id instance_name
     device_name size' iops throughput volume_type az sg_names w)) =
   new_table w @ (case put of Inl e \<Rightarrow> [] | Inr u \<Rightarrow>
                 [\<lparr>new_volume = new_volume_id,
                   new_source_snapshot = snapshot_id,
                   new_instance_id = instance_id,
                   new_instancename = instance_name,
                   new_devicename = device_name,
                   new_size = size',
                   new_iops = iops,
                   new_throughput = throughput,
                   new_volume_type = volume_type,
                   new_availability_zone = az,
                   new_security_group_names = sg_names,
                   new_timestamp = now\<rparr>])"
  by (simp_all add: record_new_volume_apply split: sum.splits)

lemmas run_simps = snapshot_and_swap_try_def and_then_print and_then_ec2 and_then_first_instance
  and_then_record_old and_then_record_new record_old_volume_world record_new_volume_world
  print_apply Let_def

lemma swap_try_timeout:
  assumes "volume_load env = Inr vol"
    and "describe_instances env = Inr (r # rs)"
    and "Instances r = inst # insts"
    and "create_snapshot env = Inr snap"
    and "wait_snapshot_completed env = Inl e"
  shows "\<exists>w'. snapshot_and_swap_try env iid vid dev w = (Inl e, w')
     \<and> old_table w' = old_table w \<and> new_table w' = new_table w
     \<and> filter is_CreateVolume (ec2_calls w') = filter is_CreateVolume (ec2_calls w)"
  using assms by (simp add: run_simps)

lemma swap_try_ok:
  assumes "volume_load env = Inr vol"
    and "describe_instances env = Inr (r # rs)"
    and "Instances r = inst # insts"
    and "create_snapshot env = Inr snap"
    and "wait_snapshot_completed env = Inr ()"
    and "create_tags_snapshot env = Inr ()"
    and "create_volume env = Inr nv"
    and "wait_new_volume_available env = Inr ()"
    and "detach_volume env = Inr ()"
    and "wait_old_volume_available env = Inr ()"
    and "attach_volume env = Inr ()"
    and "create_tags_old_volume env = Inr ()"
  shows "\<exists>w'. snapshot_and_swap_try env iid vid dev w = (Inr (), w')
     \<and> filter is_AttachVolume (ec2_calls w')
         = filter is_AttachVolume (ec2_calls w) @ [AttachVolume nv iid dev]
     \<and> (case old_put_item env of
          Inl e \<Rightarrow> old_table w' = old_table w
        | Inr u \<Rightarrow> (\<exists>rb. old_table w' = old_table w @ [rb] \<and> old_volume_id rb = vid
                      \<and> old_devicename rb = dev \<and> old_snapshotid rb = snap))
     \<and> (case new_put_item env of
          Inl e \<Rightarrow> new_table w' = new_table w
        | Inr u \<Rightarrow> (\<exists>ra. new_table w' = new_table w @ [ra] \<and> new_volume ra = nv
                      \<and> new_devicename ra = dev \<and> new_source_snapshot ra = snap))"
  using assms by (simp add: run_simps split: sum.splits)

lemma swap_try_put_independent:
  "fst (snapshot_and_swap_try (env\<lparr>old_put_item := p, new_put_item := q\<rparr>) iid vid dev w)
     = fst (snapshot_and_swap_try env iid vid dev w)"
proof (cases "volume_load env")
  case f: (Inl e)
  show ?thesis using  f by (simp add: run_simps)
next
  case c0: (Inr vol)
  show ?thesis
  proof (cases "describe_instances env")
    case f: (Inl e)
    show ?thesis using c0 f by (simp add: run_simps)
  next
    case c1: (Inr response)
    show ?thesis
    proof (cases response)
      case f: Nil
      show ?thesis using c0 c1 f by (simp add: run_simps)
    next
      case c2: (Cons r rs)
      show ?thesis
      proof (cases "Instances r")
        case f: Nil
        show ?thesis using c0 c1 c2 f by (simp add: run_simps)
      next
        case c3: (Cons inst insts)
        show ?thesis
        proof (cases "create_snapshot env")
          case f: (Inl e)
          show ?thesis using c0 c1 c2 c3 f by (simp add: run_simps)
        next
          case c4: (Inr snap)
          show ?thesis
          proof (cases "wait_snapshot_completed env")
            case f: (Inl e)
            show ?thesis using c0 c1 c2 c3 c4 f by (simp add: run_simps)
          next
            case c5: (Inr u1)
            show ?thesis
            proof (cases "create_tags_snapshot env")
              case f: (Inl e)
              show ?thesis using c0 c1 c2 c3 c4 c5 f by (simp add: run_simps)
            next
              case c6: (Inr u2)
              show ?thesis
              proof (cases "create_volume env")
                case f: (Inl e)
                show ?thesis using c0 c1 c2 c3 c4 c5 c6 f by (simp add: run_simps)
              next
                case c7: (Inr nv)
                show ?thesis
                proof (cases "wait_new_volume_available env")
                  case f: (Inl e)
                  show ?thesis using c0 c1 c2 c3 c4 c5 c6 c7 f by (simp add: run_simps)
                next
                  case c8: (Inr u3)
                  show ?thesis
                  proof (cases "detach_volume env")
                    case f: (Inl e)
                    show ?thesis using c0 c1 c2 c3 c4 c5 c6 c7 c8 f by (simp add: run_simps)
                  next
                    case c9: (Inr u4)
                    show ?thesis
                    proof (cases "wait_old_volume_available env")
                      case f: (Inl e)
                      show ?thesis using c0 c1 c2 c3 c4 c5 c6 c7 c8 c9 f by (simp add: run_simps)
                    next
                      case c10: (Inr u5)
                      show ?thesis
                      proof (cases "attach_volume env")
                        case f: (Inl e)
                        show ?thesis using c0 c1 c2 c3 c4 c5 c6 c7 c8 c9 c10 f by (simp add: run_simps)
                      next
                        case c11: (Inr u6)
                        show ?thesis
                        proof (cases "create_tags_old_volume env")
                          case f: (Inl e)
                          show ?thesis using c0 c1 c2 c3 c4 c5 c6 c7 c8 c9 c10 c11 f by (simp add: run_simps)
                        next
                          case c12: (Inr u7)
                          show ?thesis using c0 c1 c2 c3 c4 c5 c6 c7 c8 c9 c10 c11 c12 by (simp add: run_simps)
                        qed
                      qed
                    qed
                  qed
                qed
              qed
            qed
          qed
        qed
      qed
    qed
  qed
qed

lemma swap_try_Inr_cases:
  assumes "fst (snapshot_and_swap_try env iid vid dev w) = Inr u"
  obtains vol r rs inst insts snap nv where
    "volume_load env = Inr vol" "describe_instances env = Inr (r # rs)"
    "Instances r = inst # insts" "create_snapshot env = Inr snap"
    "wait_snapshot_completed env = Inr ()" "create_tags_snapshot env = Inr ()"
    "create_volume env = Inr nv" "wait_new_volume_available env = Inr ()"
    "detach_volume env = Inr ()" "wait_old_volume_available env = Inr ()"
    "attach_volume env = Inr ()" "create_tags_old_volume env = Inr ()"
proof (cases "volume_load env")
  case f: (Inl e)
  show ?thesis using assms  f by (simp add: run_simps)
next
  case c0: (Inr vol)
  show ?thesis
  proof (cases "describe_instances env")
    case f: (Inl e)
    show ?thesis using assms c0 f by (simp add: run_simps)
  next
    case c1: (Inr response)
    show ?thesis
    proof (cases response)
      case f: Nil
      show ?thesis using assms c0 c1 f by (simp add: run_simps)
    next
      case c2: (Cons r rs)
      show ?thesis
      proof (cases "Instances r")
        case f: Nil
        show ?thesis using assms c0 c1 c2 f by (simp add: run_simps)
      next
        case c3: (Cons inst insts)
        show ?thesis
        proof (cases "create_snapshot env")
          case f: (Inl e)
          show ?thesis using assms c0 c1 c2 c3 f by (simp add: run_simps)
        next
          case c4: (Inr snap)
          show ?thesis
          proof (cases "wait_snapshot_completed env")
            case f: (Inl e)
            show ?thesis using assms c0 c1 c2 c3 c4 f by (simp add: run_simps)
          next
            case c5: (Inr u1)
            show ?thesis
            proof (cases "create_tags_snapshot env")
              case f: (Inl e)
              show ?thesis using assms c0 c1 c2 c3 c4 c5 f by (simp add: run_simps)
            next
              case c6: (Inr u2)
              show ?thesis
              proof (cases "create_volume env")
                case f: (Inl e)
                show ?thesis using assms c0 c1 c2 c3 c4 c5 c6 f by (simp add: run_simps)
              next
                case c7: (Inr nv)
                show ?thesis
                proof (cases "wait_new_volume_available env")
                  case f: (Inl e)
                  show ?thesis using assms c0 c1 c2 c3 c4 c5 c6 c7 f by (simp add: run_simps)
                next
                  case c8: (Inr u3)
                  show ?thesis
                  proof (cases "detach_volume env")
                    case f: (Inl e)
                    show ?thesis using assms c0 c1 c2 c3 c4 c5 c6 c7 c8 f by (simp add: run_simps)
                  next
                    case c9: (Inr u4)
                    show ?thesis
                    proof (cases "wait_old_volume_available env")
                      case f: (Inl e)
                      show ?thesis using assms c0 c1 c2 c3 c4 c5 c6 c7 c8 c9 f by (simp add: run_simps)
                    next
                      case c10: (Inr u5)
                      show ?thesis
                      proof (cases "attach_volume env")
                        case f: (Inl e)
                        show ?thesis using assms c0 c1 c2 c3 c4 c5 c6 c7 c8 c9 c10 f by (simp add: run_simps)
                      next
                        case c11: (Inr u6)
                        show ?thesis
                        proof (cases "create_tags_old_volume env")
                          case f: (Inl e)
                          show ?thesis using assms c0 c1 c2 c3 c4 c5 c6 c7 c8 c9 c10 c11 f by (simp add: run_simps)
                        next
                          case c12: (Inr u7)
                          have d: "describe_instances env = Inr (r # rs)" using c1 c2 by simp
                          show ?thesis
                            by (rule that [OF c0 d c3 c4]) (use c5 c6 c7 c8 c9 c10 c11 c12 in simp_all)
                        qed
                      qed
                    qed
                  qed
                qed
              qed
            qed
          qed
        qed
      qed
    qed
  qed
qed

lemma snapshot_and_swap_Returned:
  "snapshot_and_swap env iid vi w = (Returned, w') \<longleftrightarrow>
   snapshot_and_swap_try env iid (vi_volume_id vi) (vi_device_name vi) w = (Inr (), w')"
  by (auto simp: snapshot_and_swap_def Let_def split: prod.splits sum.splits if_splits)

lemma snapshot_and_swap_fst:
  "fst (snapshot_and_swap env iid vi w) =
     (case fst (snapshot_and_swap_try env iid (vi_volume_id vi) (vi_device_name vi) w) of
        Inl e \<Rightarrow> SystemExit 1 | Inr u \<Rightarrow> Returned)"
  by (auto simp: snapshot_and_swap_def Let_def split: prod.splits sum.splits if_splits)

lemma swap_Returned_facts:
  assumes "snapshot_and_swap env iid vi w = (Returned, w')"
  shows "\<exists>snap nv. create_snapshot env = Inr snap \<and> create_volume env = Inr nv
     \<and> attach_volume env = Inr ()
     \<and> filter is_AttachVolume (ec2_calls w')
         = filter is_AttachVolume (ec2_calls w) @ [AttachVolume nv iid (vi_device_name vi)]
     \<and> (case old_put_item env of
          Inl e \<Rightarrow> old_table w' = old_table w
        | Inr u \<Rightarrow> (\<exists>rb. old_table w' = old_table w @ [rb] \<and> old_volume_id rb = vi_volume_id vi
                      \<and> old_devicename rb = vi_device_name vi \<and> old_snapshotid rb = snap))
     \<and> (case new_put_item env of
          Inl e \<Rightarrow> new_table w' = new_table w
        | Inr u \<Rightarrow> (\<exists>ra. new_table w' = new_table w @ [ra] \<and> new_volume ra = nv
                      \<and> new_devicename ra = vi_device_name vi \<and> new_source_snapshot ra = snap))"
proof -
  from assms have t: "snapshot_and_swap_try env iid (vi_volume_id vi) (vi_device_name vi) w = (Inr (), w')"
    by (simp add: snapshot_and_swap_Returned)
  then have "fst (snapshot_and_swap_try env iid (vi_volume_id vi) (vi_device_name vi) w) = Inr ()"
    by simp
  then obtain vol r rs inst insts snap nv where ok:
    "volume_load env = Inr vol" "describe_instances env = Inr (r # rs)"
    "Instances r = inst # insts" "create_snapshot env = Inr snap"
    "wait_snapshot_completed env = Inr ()" "create_tags_snapshot env = Inr ()"
    "create_volume env = Inr nv" "wait_new_volume_available env = Inr ()"
    "detach_volume env = Inr ()" "wait_old_volume_available env = Inr ()"
    "attach_volume env = Inr ()" "create_tags_old_volume env = Inr ()"
    by (rule swap_try_Inr_cases)
  from swap_try_ok [OF ok, of iid "vi_volume_id vi" "vi_device_name vi" w] t ok(4,7,11)
  show ?thesis by auto
qed

text \<open>
  Claim C3, amended. For every swap that runs to successful completion and whose two audit
  writes both succeed, exactly one item is written to the first table, keyed by the old
  volume id, and exactly one to the second table, keyed by the new volume id; both carry
  the id of the snapshot taken in this run, and both carry the device name of the old
  volume's attachment.
\<close>

theorem successful_swap_audit_rows:
  assumes "snapshot_and_swap env iid vi w = (Returned, w')"
    and "old_put_item env = Inr ()" and "new_put_item env = Inr ()"
  shows "\<exists>snap nv rb ra.
           create_snapshot env = Inr snap \<and> create_volume env = Inr nv
         \<and> old_table w' = old_table w @ [rb] \<and> new_table w' = new_table w @ [ra]
         \<and> old_volume_id rb = vi_volume_id vi \<and> new_volume ra = nv
         \<and> old_snapshotid rb = snap \<and> new_source_snapshot ra = snap
         \<and> old_devicename rb = vi_device_name vi \<and> new_devicename ra = vi_device_name vi"
  using swap_Returned_facts [OF assms(1)] assms(2,3) by auto

text \<open>
  Claim C4. In every completed swap the worker sends exactly one attach request, it
  succeeds, and it attaches the newly created volume at the device name recorded in the
  worker's argument, the device of the old volume's attachment.
\<close>

theorem completed_swap_attaches_at_original_device:
  assumes "snapshot_and_swap env iid vi w = (Returned, w')"
  shows "\<exists>nv. create_volume env = Inr nv \<and> attach_volume env = Inr ()
     \<and> filter is_AttachVolume (ec2_calls w')
         = filter is_AttachVolume (ec2_calls w) @ [AttachVolume nv iid (vi_device_name vi)]"
  using swap_Returned_facts [OF assms] by auto

text \<open>
  Claim C5. In every worker execution that reaches the snapshot wait and whose wait raises
  a \<open>WaiterError\<close>, the worker ends with \<open>sys.exit(1)\<close> after printing the waiter error,
  no request to create a volume has been sent, and neither audit table has been written.
\<close>

theorem snapshot_wait_timeout_leaves_no_trace:
  assumes "volume_load env = Inr vol"
    and "describe_instances env = Inr (r # rs)"
    and "Instances r = inst # insts"
    and "create_snapshot env = Inr snap"
    and "wait_snapshot_completed env = Inl (WaiterError m)"
  shows "\<exists>w'. snapshot_and_swap env iid vi w = (SystemExit 1, w')
     \<and> old_table w' = old_table w \<and> new_table w' = new_table w
     \<and> filter is_CreateVolume (ec2_calls w') = filter is_CreateVolume (ec2_calls w)
     \<and> last (stdout w') = Line (''[ERROR] Waiter failed for volume '' @ fmt (vi_volume_id vi)
                                  @ '': '' @ m)"
proof -
  from swap_try_timeout [OF assms, of iid "vi_volume_id vi" "vi_device_name vi" w]
  obtain w1 where w1:
    "snapshot_and_swap_try env iid (vi_volume_id vi) (vi_device_name vi) w
       = (Inl (WaiterError m), w1)"
    "old_table w1 = old_table w" "new_table w1 = new_table w"
    "filter is_CreateVolume (ec2_calls w1) = filter is_CreateVolume (ec2_calls w)"
    by blast
  show ?thesis
    using w1 by (simp add: snapshot_and_swap_def Let_def print_apply)
qed

text \<open>
  Claim C8. For all arguments and every outcome of \<open>put_item\<close>, \<open>record_old_volume\<close> and
  \<open>record_new_volume\<close> return without raising; when the write fails, all they do is print
  the error line; and whether the worker completes does not depend on the outcomes of the
  two writes, so a failed write alone never aborts a swap.
\<close>

theorem audit_recorder_never_raises:
  "fst (record_old_volume put now volume_id instance_id instance_name device_name size' iops
          throughput snapshot_id w) = Inr ()
   \<and> fst (record_new_volume put' now' new_volume_id snapshot_id' instance_id' instance_name'
            device_name' size'' iops' throughput' volume_type az sg_names w) = Inr ()
   \<and> (\<forall>e. put = Inl e \<longrightarrow>
         snd (record_old_volume put now volume_id instance_id instance_name device_name size' iops
                throughput snapshot_id w)
           = wrote (Line (''[ERROR] Failed to log old volume '' @ fmt volume_id @ '': ''
                          @ exn_str e)) w)
   \<and> (\<forall>e. put' = Inl e \<longrightarrow>
         snd (record_new_volume put' now' new_volume_id snapshot_id' instance_id' instance_name'
                device_name' size'' iops' throughput' volume_type az sg_names w)
           = wrote (Line (''[ERROR] Failed to log new volume '' @ new_volume_id @ '': ''
                          @ exn_str e)) w)
   \<and> fst (snapshot_and_swap (env\<lparr>old_put_item := put, new_put_item := put'\<rparr>) iid vi w)
       = fst (snapshot_and_swap env iid vi w)"
  by (simp add: record_old_volume_apply record_new_volume_apply snapshot_and_swap_fst
      swap_try_put_independent)

subsection \<open>The scenarios, run\<close>

lemma snapshot_and_swap_ok_Returned:
  assumes "volume_load env = Inr vol"
    and "describe_instances env = Inr (r # rs)"
    and "Instances r = inst # insts"
    and "create_snapshot env = Inr snap"
    and "wait_snapshot_completed env = Inr ()"
    and "create_tags_snapshot env = Inr ()"
    and "create_volume env = Inr nv"
    and "wait_new_volume_available env = Inr ()"
    and "detach_volume env = Inr ()"
    and "wait_old_volume_available env = Inr ()"
    and "attach_volume env = Inr ()"
    and "create_tags_old_volume env = Inr ()"
  shows "snapshot_and_swap env iid vi w = (Returned, snd (snapshot_and_swap env iid vi w))"
proof -
  from swap_try_ok [OF assms, of iid "vi_volume_id vi" "vi_device_name vi" w]
  have "fst (snapshot_and_swap_try env iid (vi_volume_id vi) (vi_device_name vi) w) = Inr ()"
    by auto
  then have "fst (snapshot_and_swap env iid vi w) = Returned"
    by (simp add: snapshot_and_swap_fst)
  then show ?thesis by (simp add: prod_eq_iff)
qed

lemma ok_worker_env_Returned:
  "snapshot_and_swap ok_worker_env iid vi w
     = (Returned, snd (snapshot_and_swap ok_worker_env iid vi w))"
  by (rule snapshot_and_swap_ok_Returned
        [where r = "hd scenario_response" and rs = "[]"
           and inst = "hd (Instances (hd scenario_response))" and insts = "[]"])
     (simp_all add: ok_worker_env_def scenario_response_def)

lemma rejected_put_worker_env_Returned:
  "snapshot_and_swap rejected_put_worker_env iid vi w
     = (Returned, snd (snapshot_and_swap rejected_put_worker_env iid vi w))"
  by (rule snapshot_and_swap_ok_Returned
        [where r = "hd scenario_response" and rs = "[]"
           and inst = "hd (Instances (hd scenario_response))" and insts = "[]"])
     (simp_all add: rejected_put_worker_env_def ok_worker_env_def scenario_response_def)

text \<open>The swap of \<open>vol-1\<close> at \<open>/dev/sdf\<close> when every call succeeds.\<close>

theorem successful_swap_audit_rows_witness:
  "snapshot_and_swap ok_worker_env ''i-1''
     \<lparr>vi_volume_id = Some ''vol-1'', vi_device_name = Some ''/dev/sdf''\<rparr> world0
     = (Returned, snd (snapshot_and_swap ok_worker_env ''i-1''
          \<lparr>vi_volume_id = Some ''vol-1'', vi_device_name = Some ''/dev/sdf''\<rparr> world0))
   \<and> old_put_item ok_worker_env = Inr () \<and> new_put_item ok_worker_env = Inr ()
   \<and> map (\<lambda>rb. (old_volume_id rb, old_snapshotid rb, old_devicename rb))
        (old_table (snd (snapshot_and_swap ok_worker_env ''i-1''
          \<lparr>vi_volume_id = Some ''vol-1'', vi_device_name = Some ''/dev/sdf''\<rparr> world0)))
       = [(Some ''vol-1'', ''snap-1'', Some ''/dev/sdf'')]
   \<and> map (\<lambda>ra. (new_volume ra, new_source_snapshot ra, new_devicename ra))
        (new_table (snd (snapshot_and_swap ok_worker_env ''i-1''
          \<lparr>vi_volume_id = Some ''vol-1'', vi_device_name = Some ''/dev/sdf''\<rparr> world0)))
       = [(''vol-9'', ''snap-1'', Some ''/dev/sdf'')]"
proof -
  have p: "old_put_item ok_worker_env = Inr ()" "new_put_item ok_worker_env = Inr ()"
    by (simp_all add: ok_worker_env_def)
  have c: "create_snapshot ok_worker_env = Inr ''snap-1''" "create_volume ok_worker_env = Inr ''vol-9''"
    by (simp_all add: ok_worker_env_def)
  note h = ok_worker_env_Returned
    [of "''i-1''" "\<lparr>vi_volume_id = Some ''vol-1'', vi_device_name = Some ''/dev/sdf''\<rparr>" world0]
  show ?thesis
    using successful_swap_audit_rows [OF h p] p c h
    by (auto simp: world0_def)
qed

text \<open>
  Claim C3 as stated fails when the first audit write is rejected: the swap of \<open>vol-1\<close>
  completes, and no item has been written to the first table.
\<close>

theorem audit_write_failure_counterexample:
  "fst (snapshot_and_swap rejected_put_worker_env ''i-1''
         \<lparr>vi_volume_id = Some ''vol-1'', vi_device_name = Some ''/dev/sdf''\<rparr> world0) = Returned
   \<and> old_table (snd (snapshot_and_swap rejected_put_worker_env ''i-1''
         \<lparr>vi_volume_id = Some ''vol-1'', vi_device_name = Some ''/dev/sdf''\<rparr> world0)) = []"
proof -
  have "old_put_item rejected_put_worker_env = Inl (ClientError ''AccessDeniedException'')"
    by (simp add: rejected_put_worker_env_def)
  then show ?thesis
    using swap_Returned_facts [OF rejected_put_worker_env_Returned,
        of "''i-1''" "\<lparr>vi_volume_id = Some ''vol-1'', vi_device_name = Some ''/dev/sdf''\<rparr>" world0]
      rejected_put_worker_env_Returned
        [of "''i-1''" "\<lparr>vi_volume_id = Some ''vol-1'', vi_device_name = Some ''/dev/sdf''\<rparr>" world0]
    by (auto simp: world0_def prod_eq_iff)
qed

text \<open>The same swap: its one attach request puts \<open>vol-9\<close> at \<open>/dev/sdf\<close>.\<close>

theorem completed_swap_attaches_at_original_device_witness:
  "snapshot_and_swap ok_worker_env ''i-1''
     \<lparr>vi_volume_id = Some ''vol-1'', vi_device_name = Some ''/dev/sdf''\<rparr> world0
     = (Returned, snd (snapshot_and_swap ok_worker_env ''i-1''
          \<lparr>vi_volume_id = Some ''vol-1'', vi_device_name = Some ''/dev/sdf''\<rparr> world0))
   \<and> filter is_AttachVolume (ec2_calls (snd (snapshot_and_swap ok_worker_env ''i-1''
          \<lparr>vi_volume_id = Some ''vol-1'', vi_device_name = Some ''/dev/sdf''\<rparr> world0)))
       = [AttachVolume ''vol-9'' ''i-1'' (Some ''/dev/sdf'')]"
proof -
  have c: "create_volume ok_worker_env = Inr ''vol-9''"
    by (simp add: ok_worker_env_def)
  note h = ok_worker_env_Returned
    [of "''i-1''" "\<lparr>vi_volume_id = Some ''vol-1'', vi_device_name = Some ''/dev/sdf''\<rparr>" world0]
  show ?thesis
    using completed_swap_attaches_at_original_device [OF h] c h
    by (auto simp: world0_def)
qed

text \<open>The swap of \<open>vol-1\<close> when the snapshot wait runs out of attempts.\<close>

theorem snapshot_wait_timeout_leaves_no_trace_witness:
  "\<exists>w'. snapshot_and_swap timeout_worker_env ''i-1''
          \<lparr>vi_volume_id = Some ''vol-1'', vi_device_name = Some ''/dev/sdf''\<rparr> world0
          = (SystemExit 1, w')
     \<and> old_table w' = [] \<and> new_table w' = []
     \<and> filter is_CreateVolume (ec2_calls w') = []
     \<and> last (stdout w') = Line (''[ERROR] Waiter failed for volume vol-1: ''
                                  @ ''Waiter SnapshotCompleted failed: Max attempts exceeded'')"
  using snapshot_wait_timeout_leaves_no_trace
    [where env = timeout_worker_env and rs = "[]" and insts = "[]" and iid = "''i-1''"
       and vi = "\<lparr>vi_volume_id = Some ''vol-1'', vi_device_name = Some ''/dev/sdf''\<rparr>"
       and w = world0 and snap = "''snap-1''" and r = "hd scenario_response"
       and inst = "hd (Instances (hd scenario_response))"
       and m = "''Waiter SnapshotCompleted failed: Max attempts exceeded''"]
  by (simp add: timeout_worker_env_def ok_worker_env_def scenario_response_def world0_def fmt_def)

text \<open>Both recorders with a rejected write.\<close>

theorem audit_recorder_never_raises_witness:
  "record_old_volume (Inl (ClientError ''AccessDeniedException'')) ''2025-01-01T00:00:00''
     (Some ''vol-1'') ''i-1'' ''app-1'' (Some ''/dev/sdf'') 100 3000 0 ''snap-1'' world0
     = (Inr (), wrote (Line ''[ERROR] Failed to log old volume vol-1: AccessDeniedException'') world0)
   \<and> record_new_volume (Inl (ClientError ''AccessDeniedException'')) ''2025-01-01T00:05:00''
     ''vol-9'' ''snap-1'' ''i-1'' ''app-1'' (Some ''/dev/sdf'') 100 3000 0 ''gp3'' ''us-east-1a''
     ''web'' world0
     = (Inr (), wrote (Line ''[ERROR] Failed to log new volume vol-9: AccessDeniedException'') world0)"
  using audit_recorder_never_raises
    [where put = "Inl (ClientError ''AccessDeniedException'')" and now = "''2025-01-01T00:00:00''"
       and volume_id = "Some ''vol-1''" and instance_id = "''i-1''" and instance_name = "''app-1''"
       and device_name = "Some ''/dev/sdf''" and size' = 100 and iops = 3000 and throughput = 0
       and snapshot_id = "''snap-1''" and w = world0
       and put' = "Inl (ClientError ''AccessDeniedException'')" and now' = "''2025-01-01T00:05:00''"
       and new_volume_id = "''vol-9''" and snapshot_id' = "''snap-1''" and instance_id' = "''i-1''"
       and instance_name' = "''app-1''" and device_name' = "Some ''/dev/sdf''" and size'' = 100
       and iops' = 3000 and throughput' = 0 and volume_type = "''gp3''" and az = "''us-east-1a''"
       and sg_names = "''web''" and env = ok_worker_env and iid = "''i-1''"
       and vi = "\<lparr>vi_volume_id = Some ''vol-1'', vi_device_name = Some ''/dev/sdf''\<rparr>"]
  by (simp add: prod_eq_iff fmt_def)

subsection \<open>The driver\<close>

lemma strip_Nil: "strip [] = []"
  by (simp add: strip_def lstrip_def rstrip_def)

lemma filter_requested_iff:
  "filter_requested csv \<longleftrightarrow>
   \<not> (csv = None \<or> csv = Some [] \<or> csv = Some ''AllVolumes''
       \<or> (\<exists>s. csv = Some s \<and> strip s = []))"
  by (cases csv) (auto simp: filter_requested_def strip_Nil)

lemma and_then_result:
  "m w = (Inr x, w') \<Longrightarrow> and_then m f w = f x w'"
  by (simp add: and_then_def)

lemma locate_volumes_unfiltered:
  assumes "\<not> filter_requested csv" and "ec2_describe_instances env iid = Inr response"
  shows "locate_volumes env iid csv w =
     (Inr (map (\<lambda>m. \<lparr>vi_volume_id = mapping_volume_id m, vi_device_name = DeviceName m\<rparr>)
            (filter (\<lambda>m. DeviceName m \<notin> Some ` set EXCLUDE_DEVICES) (all_mappings response))),
      wrote (Line ''All volumes'') (called (DescribeInstances iid) w))"
proof -
  note g = get_attached_volumes_ok
    [where describe = "ec2_describe_instances env" and instance_id = iid and w = w, OF assms(2)]
  note a = and_then_result
    [where m = "get_attached_volumes (ec2_describe_instances env) iid" and w = w, OF g]
  show ?thesis
    using assms(1) by (simp add: locate_volumes_def a and_then_print ret_def)
qed

lemma locate_volumes_filtered:
  assumes "filter_requested (Some s)" and "ec2_describe_instances env iid = Inr response"
  shows "locate_volumes env iid (Some s) w =
     (fst (get_filtered_attached_volumes (ec2_describe_instances env) iid s w),
      wrote (Line ''filtered volume ids'') (called (DescribeInstances iid) w))"
proof -
  note g = get_filtered_attached_volumes_ok
    [where describe = "ec2_describe_instances env" and instance_id = iid and w = w
       and csv = s, OF assms(2)]
  note a = and_then_result
    [where m = "get_filtered_attached_volumes (ec2_describe_instances env) iid s" and w = w,
     OF g]
  show ?thesis
    using assms(1) by (simp add: locate_volumes_def a g and_then_print ret_def)
qed

text \<open>
  Claim C2, amended. When EC2 answers the lookup: if the filter argument is missing, the
  empty string, a string of whitespace only, or the literal \<open>AllVolumes\<close>, the driver takes
  the unfiltered path and gets every attachment whose device name is not in
  \<open>EXCLUDE_DEVICES\<close>; every other filter string, \<open>all\<close> included, takes the filtered path.
\<close>

theorem locate_volumes_path:
  "ec2_describe_instances env INSTANCE_ID = Inr response \<Longrightarrow>
   (if volume_ids_csv = None \<or> volume_ids_csv = Some [] \<or> volume_ids_csv = Some ''AllVolumes''
       \<or> (\<exists>s. volume_ids_csv = Some s \<and> strip s = [])
    then locate_volumes env INSTANCE_ID volume_ids_csv w =
      (Inr (map (\<lambda>m. \<lparr>vi_volume_id = mapping_volume_id m, vi_device_name = DeviceName m\<rparr>)
             (filter (\<lambda>m. DeviceName m \<notin> Some ` set EXCLUDE_DEVICES) (all_mappings response))),
       wrote (Line ''All volumes'') (called (DescribeInstances INSTANCE_ID) w))
    else \<exists>s. volume_ids_csv = Some s \<and>
      locate_volumes env INSTANCE_ID volume_ids_csv w =
        (fst (get_filtered_attached_volumes (ec2_describe_instances env) INSTANCE_ID s w),
         wrote (Line ''filtered volume ids'') (called (DescribeInstances INSTANCE_ID) w)))"
proof (cases "filter_requested volume_ids_csv")
  case True
  then obtain s where s: "volume_ids_csv = Some s"
    by (cases volume_ids_csv) (auto simp: filter_requested_def)
  assume "ec2_describe_instances env INSTANCE_ID = Inr response"
  from locate_volumes_filtered [OF True [unfolded s] this] True s
  show ?thesis by (auto simp: filter_requested_iff)
next
  case False
  assume "ec2_describe_instances env INSTANCE_ID = Inr response"
  from locate_volumes_unfiltered [OF False this] False
  show ?thesis by (auto simp: filter_requested_iff)
qed

lemma scenario_env_describe:
  "ec2_describe_instances scenario_main_env i = Inr scenario_response"
  by (simp add: scenario_main_env_def scenario_describe_def)

text \<open>The scenario instance with the filters \<open>AllVolumes\<close> and \<open>vol-1\<close>.\<close>

theorem locate_volumes_path_witness:
  "ec2_describe_instances scenario_main_env ''i-1'' = Inr scenario_response
   \<and> locate_volumes scenario_main_env ''i-1'' (Some ''AllVolumes'') world0 =
       (Inr [\<lparr>vi_volume_id = Some ''vol-1'', vi_device_name = Some ''/dev/sdf''\<rparr>,
             \<lparr>vi_volume_id = Some ''vol-2'', vi_device_name = Some ''/dev/sdg''\<rparr>],
        wrote (Line ''All volumes'') (called (DescribeInstances ''i-1'') world0))
   \<and> locate_volumes scenario_main_env ''i-1'' (Some ''vol-1'') world0 =
       (Inr [\<lparr>vi_volume_id = Some ''vol-1'', vi_device_name = Some ''/dev/sdf''\<rparr>],
        wrote (Line ''filtered volume ids'') (called (DescribeInstances ''i-1'') world0))"
proof -
  note d = scenario_env_describe [of "''i-1''"]
  have s: "strip ''vol-1'' = ''vol-1''"
    by (simp add: strip_def lstrip_def rstrip_def isspace_def)
  have f: "fst (get_filtered_attached_volumes (ec2_describe_instances scenario_main_env) ''i-1''
                  ''vol-1'' world0)
        = Inr [\<lparr>vi_volume_id = Some ''vol-1'', vi_device_name = Some ''/dev/sdf''\<rparr>]"
    by (simp add: get_filtered_attached_volumes_ok
          [where describe = "ec2_describe_instances scenario_main_env" and instance_id = "''i-1''",
           OF d]
        scenario_mappings parse_examples EXCLUDE_DEVICES_def mapping_volume_id_def)
  show ?thesis
    using locate_volumes_path
        [where env = scenario_main_env and INSTANCE_ID = "''i-1''", OF d,
         of "Some ''AllVolumes''" world0]
      locate_volumes_path
        [where env = scenario_main_env and INSTANCE_ID = "''i-1''", OF d,
         of "Some ''vol-1''" world0] d s f
    by (simp add: scenario_mappings EXCLUDE_DEVICES_def mapping_volume_id_def)
qed

text \<open>
  Claim C2 as stated fails at the filter \<open>all\<close>: the driver takes the filtered path and
  finds no volume, while the instance has two attached volumes outside \<open>EXCLUDE_DEVICES\<close>.
\<close>

theorem sentinel_all_counterexample:
  "locate_volumes scenario_main_env ''i-1'' (Some ''all'') world0 =
     (Inr [], wrote (Line ''filtered volume ids'') (called (DescribeInstances ''i-1'') world0))
   \<and> fst (get_attached_volumes scenario_describe ''i-1'' world0) =
       Inr [\<lparr>vi_volume_id = Some ''vol-1'', vi_device_name = Some ''/dev/sdf''\<rparr>,
            \<lparr>vi_volume_id = Some ''vol-2'', vi_device_name = Some ''/dev/sdg''\<rparr>]"
proof -
  note d = scenario_env_describe [of "''i-1''"]
  have s: "strip ''all'' = ''all''"
    by (simp add: strip_def lstrip_def rstrip_def isspace_def)
  have r: "filter_requested (Some ''all'')"
    by (simp add: filter_requested_def s)
  have f: "fst (get_filtered_attached_volumes (ec2_describe_instances scenario_main_env) ''i-1''
                  ''all'' world0) = Inr []"
    by (simp add: get_filtered_attached_volumes_ok
          [where describe = "ec2_describe_instances scenario_main_env" and instance_id = "''i-1''",
           OF d]
        scenario_mappings parse_examples EXCLUDE_DEVICES_def mapping_volume_id_def)
  have g: "scenario_describe ''i-1'' = Inr scenario_response"
    by (simp add: scenario_describe_def)
  show ?thesis
    using locate_volumes_filtered
        [where env = scenario_main_env and iid = "''i-1''", OF r d, of world0] f
    by (simp add: get_attached_volumes_ok
          [where describe = scenario_describe and instance_id = "''i-1''", OF g]
        scenario_mappings EXCLUDE_DEVICES_def mapping_volume_id_def)
qed

lemma for_each_print:
  "fst (for_each (\<lambda>v. print (g v)) xs w) = Inr ()"
  by (induction xs arbitrary: w) (simp_all add: ret_def and_then_print)

lemma and_then_for_each_print:
  "and_then (for_each (\<lambda>v. print (g v)) xs) f w
     = f () (snd (for_each (\<lambda>v. print (g v)) xs w))"
  using for_each_print [of g xs w]
  by (cases "for_each (\<lambda>v. print (g v)) xs w") (simp add: and_then_def)

lemma and_then_print_volumes:
  "and_then (print_volumes vs) f w = f () (wrote (Repr_volumes vs) w)"
  by (simp add: and_then_def print_volumes_def)

lemma and_then_executor:
  "and_then (\<lambda>w. case g w of (futures, w') \<Rightarrow> (Inr (), w')) f w = f () (snd (g w))"
  by (simp add: and_then_def split: prod.splits)

lemma main_after_locate:
  assumes "locate_volumes env iid csv
             (wrote (Line (fmt csv)) (wrote (Line iid) (wrote (Line region)
               (wrote (Line ''Inside script'') w)))) = (Inr vs, w1)"
  shows "\<exists>w'. main env region iid csv w = (0, w')
     \<and> last (stdout w') = Line (if vs = [] then ''[WARN] No eligible volumes found.''
                                 else ''[INFO] All volume operations completed.'')"
proof (cases "vs = []")
  note a = and_then_result
    [where m = "locate_volumes env iid csv"
       and w = "wrote (Line (fmt csv)) (wrote (Line iid) (wrote (Line region)
                  (wrote (Line ''Inside script'') w)))", OF assms]
  case True
  then show ?thesis
    by (simp add: main_def main_body_def and_then_print a and_then_print_volumes print_apply)
next
  note a = and_then_result
    [where m = "locate_volumes env iid csv"
       and w = "wrote (Line (fmt csv)) (wrote (Line iid) (wrote (Line region)
                  (wrote (Line ''Inside script'') w)))", OF assms]
  case False
  show ?thesis
    using False
    by (simp add: main_def main_body_def and_then_print a and_then_for_each_print
        and_then_print_volumes and_then_executor print_apply)
qed

lemma timeout_worker_env_exits:
  "fst (snapshot_and_swap timeout_worker_env iid vi w) = SystemExit 1"
proof -
  from swap_try_timeout
    [where env = timeout_worker_env and r = "hd scenario_response" and rs = "[]"
       and inst = "hd (Instances (hd scenario_response))" and insts = "[]"
       and snap = "''snap-1''"
       and e = "WaiterError ''Waiter SnapshotCompleted failed: Max attempts exceeded''"
       and iid = iid and vid = "vi_volume_id vi" and dev = "vi_device_name vi" and w = w]
  have "fst (snapshot_and_swap_try timeout_worker_env iid (vi_volume_id vi) (vi_device_name vi) w)
          = Inl (WaiterError ''Waiter SnapshotCompleted failed: Max attempts exceeded'')"
    by (auto simp: timeout_worker_env_def ok_worker_env_def scenario_response_def)
  then show ?thesis by (simp add: snapshot_and_swap_fst)
qed

text \<open>
  Claim C1 at a failing input. The instance has the volume \<open>vol-1\<close> at \<open>/dev/sdf\<close>, the
  filter is \<open>vol-1\<close>, and the snapshot wait of its worker runs out of attempts. The worker
  ends with \<open>sys.exit(1)\<close>; \<open>main\<close> nevertheless prints its last line and the exit status
  of the process is 0, where the claim demands 1.
\<close>

theorem worker_failure_exit_status:
  "fst (main timeout_main_env ''us-east-1'' ''i-1'' (Some ''vol-1'') world0) = 0
   \<and> last (stdout (snd (main timeout_main_env ''us-east-1'' ''i-1'' (Some ''vol-1'') world0)))
       = Line ''[INFO] All volume operations completed.''
   \<and> fst (snapshot_and_swap (worker_envs timeout_main_env 0) ''i-1''
            \<lparr>vi_volume_id = Some ''vol-1'', vi_device_name = Some ''/dev/sdf''\<rparr> world0)
       = SystemExit 1"
proof -
  have d: "ec2_describe_instances timeout_main_env ''i-1'' = Inr scenario_response"
    by (simp add: timeout_main_env_def scenario_describe_def)
  have s: "strip ''vol-1'' = ''vol-1''"
    by (simp add: strip_def lstrip_def rstrip_def isspace_def)
  have r: "filter_requested (Some ''vol-1'')"
    by (simp add: filter_requested_def s)
  have f: "fst (get_filtered_attached_volumes (ec2_describe_instances timeout_main_env) ''i-1''
                  ''vol-1'' w)
        = Inr [\<lparr>vi_volume_id = Some ''vol-1'', vi_device_name = Some ''/dev/sdf''\<rparr>]" for w
    by (simp add: get_filtered_attached_volumes_ok
          [where describe = "ec2_describe_instances timeout_main_env" and instance_id = "''i-1''",
           OF d]
        scenario_mappings parse_examples EXCLUDE_DEVICES_def mapping_volume_id_def)
  have l: "locate_volumes timeout_main_env ''i-1'' (Some ''vol-1'') w =
     (Inr [\<lparr>vi_volume_id = Some ''vol-1'', vi_device_name = Some ''/dev/sdf''\<rparr>],
      wrote (Line ''filtered volume ids'') (called (DescribeInstances ''i-1'') w))" for w
    using locate_volumes_filtered
        [where env = timeout_main_env and iid = "''i-1''", OF r d, of w] f [of w] by simp
  from main_after_locate
    [where env = timeout_main_env and iid = "''i-1''" and csv = "Some ''vol-1''"
       and region = "''us-east-1''" and w = world0, OF l]
  have "fst (main timeout_main_env ''us-east-1'' ''i-1'' (Some ''vol-1'') world0) = 0
   \<and> last (stdout (snd (main timeout_main_env ''us-east-1'' ''i-1'' (Some ''vol-1'') world0)))
       = Line ''[INFO] All volume operations completed.''"
    by auto
  moreover have "worker_envs timeout_main_env 0 = timeout_worker_env"
    by (simp add: timeout_main_env_def)
  ultimately show ?thesis by (simp add: timeout_worker_env_exits)
qed

end
